theory Spec2Isabelle
  imports Main "HOL-Library.Word" "HOL-Library.AList" "HOL-Library.Sublist"
begin

section \<open>ChunkCodec: fragmentation and reassembly\<close>

text \<open>
  The repository documents the chunking layer (\<open>createChunks\<close>, \<open>reassembleChunk\<close>, the
  buffer \<open>peerId -> chunkId -> chunks[]\<close>) but the functions themselves are not among the
  source files. This section follows section 4.1 of the specification.

  A payload is a byte string. Chunk ids are UUID strings, peer ids are strings. The frame
  counters \<open>index\<close> and \<open>total\<close> are natural numbers, as the JavaScript numbers they are
  written from.
\<close>

text \<open>
  Modelled from the spec: the frame of section 3, a tagged union of \<open>Plain(bytes)\<close> and
  \<open>Chunk{chunkId, index, total, payload}\<close> (the wire encoding written by \<open>createChunks\<close>
  is not in the sources), and the result of \<open>reassemble\<close>, where "incomplete" is distinct
  from a completed empty payload.
\<close>

type_synonym bytes = "8 word list"
type_synonym chunkId = string
type_synonym peerId = string

datatype frame =
    Plain bytes
  | Chunk chunkId nat nat bytes  \<comment> \<open>chunkId, index, total, payload\<close>

datatype assembled = Incomplete | Complete bytes

text \<open>
  Modelled from the spec: the state of the reassembler (the \<open>chunkBuffers\<close> map is not in
  the sources). \<open>live\<close> is the buffer table of section 3, keyed by \<open>(peerId, chunkId)\<close>, a
  buffer being a slot array of \<open>Option<bytes>\<close>. \<open>deleted\<close> holds the keys whose buffer was
  deleted, by completion or by a purge: section 4.1 treats a frame for such a key as
  stale, which takes a record of them.
\<close>

type_synonym slots = "bytes option list"
type_synonym buffers = "peerId \<times> chunkId \<rightharpoonup> slots"

record codec =
  live :: buffers
  deleted :: "(peerId \<times> chunkId) set"

definition noBuffers :: codec where
  "noBuffers = \<lparr>live = Map.empty, deleted = {}\<rparr>"

text \<open>
  Modelled from the spec: the number of frames, \<open>total = ceil(len(payload)/limit)\<close>
  (\<open>createChunks\<close> is not in the sources). The limit is the size bound of a transport, a
  positive number.
\<close>

definition totalParts :: "nat \<Rightarrow> nat \<Rightarrow> nat" where
  "totalParts len limit = (len + limit - 1) div limit"

text \<open>
  Modelled from the spec: the slice carried by frame \<open>i\<close>, the contiguous bytes
  \<open>i * limit ..< (i + 1) * limit\<close> of the payload (\<open>createChunks\<close> is not in the sources).
\<close>

definition chunkData :: "bytes \<Rightarrow> nat \<Rightarrow> nat \<Rightarrow> bytes" where
  "chunkData payload limit i = take limit (drop (i * limit) payload)"

text \<open>
  Modelled from the spec: \<open>fragment(payload, limit)\<close> (\<open>createChunks\<close> is not in the
  sources). A payload of at most \<open>limit\<close> bytes is one \<open>Plain\<close> frame. Otherwise the frames
  are \<open>total\<close> \<open>Chunk\<close>s in index order under the chunk id \<open>cid\<close>, the random UUID that the
  caller draws.
\<close>

definition fragment :: "bytes \<Rightarrow> nat \<Rightarrow> chunkId \<Rightarrow> frame list" where
  "fragment payload limit cid =
     (if length payload \<le> limit then [Plain payload]
      else
        let n = totalParts (length payload) limit
        in map (\<lambda>i. Chunk cid i n (chunkData payload limit i)) [0..<n])"

text \<open>
  Modelled from the spec: the documented \<open>createChunks(message)\<close>, which fragments at the
  constant \<open>CHUNK_SIZE = 10 * 1000\<close> (the function is not in the sources).
\<close>

definition CHUNK_SIZE :: nat where
  "CHUNK_SIZE = 10 * 1000"

definition createChunks :: "bytes \<Rightarrow> chunkId \<Rightarrow> frame list" where
  "createChunks message cid = fragment message CHUNK_SIZE cid"

text \<open>
  Modelled from the spec: \<open>reassemble(peerId, frame)\<close> (\<open>reassembleChunk\<close> is not in the
  sources). A \<open>Plain\<close> frame returns its payload and leaves the state alone. A \<open>Chunk\<close>
  frame for a key whose buffer was deleted is stale: it is ignored and the result is
  \<open>Incomplete\<close>. Otherwise the frame looks up the \<open>(peerId, chunkId)\<close> buffer or creates it
  with \<open>total\<close> empty slots, writes the payload into slot \<open>index\<close> (last write wins), and
  returns \<open>Incomplete\<close> while a slot is empty; once all slots are filled it deletes the
  entry and returns the concatenation. An index outside the buffer is a reassembly
  anomaly: the frame is dropped, the state unchanged.
\<close>

definition reassemble :: "codec \<Rightarrow> peerId \<Rightarrow> frame \<Rightarrow> assembled \<times> codec" where
  "reassemble st peer fr =
     (case fr of
        Plain payload \<Rightarrow> (Complete payload, st)
      | Chunk cid idx n payload \<Rightarrow>
          if (peer, cid) \<in> deleted st then (Incomplete, st)
          else
            let buf = (case live st (peer, cid) of Some b \<Rightarrow> b | None \<Rightarrow> replicate n None)
            in if length buf \<le> idx then (Incomplete, st)
               else
                 let buf' = buf[idx := Some payload]
                 in if None \<in> set buf'
                    then (Incomplete, st\<lparr>live := (live st)((peer, cid) \<mapsto> buf')\<rparr>)
                    else (Complete (concat (map the buf')),
                          st\<lparr>live := (live st)((peer, cid) := None),
                             deleted := insert (peer, cid) (deleted st)\<rparr>))"

text \<open>
  Modelled from the spec: the peer-scoped purge, which deletes every buffer of one peer
  (the teardown code is not in the sources).
\<close>

definition purge :: "codec \<Rightarrow> peerId \<Rightarrow> codec" where
  "purge st peer =
     st\<lparr>live := (\<lambda>(p, c). if p = peer then None else live st (p, c)),
        deleted := deleted st \<union> {k. fst k = peer \<and> live st k \<noteq> None}\<rparr>"

text \<open>
  Modelled from the spec: a link delivers its frames one by one to \<open>reassemble\<close> under the
  id of the remote peer (section 4.4; the data handler is not in the sources). \<open>feed\<close>
  returns the result of every frame, in order, and the final state.
\<close>

fun feed :: "codec \<Rightarrow> peerId \<Rightarrow> frame list \<Rightarrow> assembled list \<times> codec" where
  "feed st peer [] = ([], st)"
| "feed st peer (fr # frs) =
     (let (r, st') = reassemble st peer fr;
          (rs, st'') = feed st' peer frs
      in (r # rs, st''))"

text \<open>
  A chunk id is fresh for a peer when the peer has no buffer under it and never had
  one; it is stale when its buffer was deleted.
\<close>

definition fresh :: "codec \<Rightarrow> peerId \<Rightarrow> chunkId \<Rightarrow> bool" where
  "fresh st peer cid = (live st (peer, cid) = None \<and> (peer, cid) \<notin> deleted st)"

definition stale :: "codec \<Rightarrow> peerId \<Rightarrow> chunkId \<Rightarrow> bool" where
  "stale st peer cid = (live st (peer, cid) = None \<and> (peer, cid) \<in> deleted st)"

text \<open>
  The round trip of a message \<open>m\<close> under the limit \<open>L\<close>: every frame of \<open>fragment m L\<close> but
  the last gives \<open>Incomplete\<close>, the last gives \<open>Complete m\<close>, and no buffer is left (a key
  that had one is on record as deleted).
\<close>

definition delivered :: "codec \<Rightarrow> peerId \<Rightarrow> chunkId \<Rightarrow> bytes \<Rightarrow> nat \<Rightarrow> codec" where
  "delivered st peer cid m L =
     (if length m \<le> L then st else st\<lparr>deleted := insert (peer, cid) (deleted st)\<rparr>)"

definition roundTrip :: "codec \<Rightarrow> peerId \<Rightarrow> chunkId \<Rightarrow> bytes \<Rightarrow> nat \<Rightarrow> bool" where
  "roundTrip st peer cid m L =
     (feed st peer (fragment m L cid) =
        (replicate (length (fragment m L cid) - 1) Incomplete @ [Complete m],
         delivered st peer cid m L))"

text \<open>
  The buffer of a key as \<open>reassemble\<close> sees it, and the buffer of a message of \<open>n\<close> frames
  whose first \<open>k\<close> frames have arrived. Both only serve the proofs.
\<close>

definition bufOf :: "codec \<Rightarrow> peerId \<Rightarrow> chunkId \<Rightarrow> nat \<Rightarrow> slots" where
  "bufOf st peer cid n = (case live st (peer, cid) of Some b \<Rightarrow> b | None \<Rightarrow> replicate n None)"

definition filled :: "bytes \<Rightarrow> nat \<Rightarrow> nat \<Rightarrow> nat \<Rightarrow> slots" where
  "filled m L n k = map (\<lambda>i. Some (chunkData m L i)) [0..<k] @ replicate (n - k) None"

text \<open>A message of two frames, after its first frame and after both.\<close>

definition halfFed :: codec where
  "halfFed = snd (reassemble noBuffers ''peer'' (Chunk ''id'' 0 2 [1]))"

definition allFed :: codec where
  "allFed = snd (reassemble halfFed ''peer'' (Chunk ''id'' 1 2 [2]))"

section \<open>JavaScript values, hooks and events\<close>

text \<open>
  The adapters of \<open>signaling-adapters.js\<close> pass untyped values around: messages, hook
  results, thrown errors, configuration objects. Numbers are integers here (no claim
  depends on floating point); \<open>AdapterRef r\<close> is a reference to a \<open>SignalingAdapter\<close>
  instance on the heap.
\<close>

datatype jsval =
    Undefined
  | Null
  | Bool bool
  | Num int
  | Str string
  | Arr "jsval list"
  | Obj "(string \<times> jsval) list"
  | Error string
  | AdapterRef nat

fun truthy :: "jsval \<Rightarrow> bool" where
  "truthy Undefined = False"
| "truthy Null = False"
| "truthy (Bool b) = b"
| "truthy (Num n) = (n \<noteq> 0)"
| "truthy (Str s) = (s \<noteq> [])"
| "truthy _ = True"

fun typeof :: "jsval \<Rightarrow> string" where
  "typeof Undefined = ''undefined''"
| "typeof (Bool b) = ''boolean''"
| "typeof (Num n) = ''number''"
| "typeof (Str s) = ''string''"
| "typeof _ = ''object''"

text \<open>
  \<open>k in v\<close> and \<open>v.k\<close> for the property names read by the adapters (\<open>topic\<close>, \<open>data\<close>,
  \<open>type\<close>, \<open>echo\<close>, \<open>hooks\<close>), none of which an array, an error or an adapter has.
\<close>

fun hasProp :: "string \<Rightarrow> jsval \<Rightarrow> bool" where
  "hasProp k (Obj ps) = (map_of ps k \<noteq> None)"
| "hasProp k _ = False"

fun getProp :: "jsval \<Rightarrow> string \<Rightarrow> jsval" where
  "getProp (Obj ps) k = (case map_of ps k of Some v \<Rightarrow> v | None \<Rightarrow> Undefined)"
| "getProp _ k = Undefined"

text \<open>
  A hook is a user function. It is called with its arguments and either returns a value
  or throws; a returned promise is awaited, so a rejection is \<open>Throws\<close> as well. The table
  \<open>hooks\<close> holds the properties of \<open>this.hooks\<close> that are functions:
  \<open>typeof this.hooks[hookName] === 'function'\<close> is \<open>hooks hookName \<noteq> None\<close>. A hook is a
  closure and may answer one call in one way and the next in another. A table gives what
  the hooks do in one call of an operation, where each of them is called at most once;
  another call of the operation meets a table of its own. A hook acts on an operation
  through what it returns or throws; it is not taken to call into the adapter itself.
\<close>

datatype outcome = Returns jsval | Throws jsval

type_synonym hook = "jsval list \<Rightarrow> outcome"
type_synonym hooks = "string \<Rightarrow> hook option"

text \<open>
  What an operation does to the outside is recorded as a list of events, in order: hook
  calls, calls on the websocket client, on the Echo instance and its channels, and events
  emitted to the observers.
\<close>

datatype event =
    HookCall string "jsval list"
  | WsNew string                      \<comment> \<open>\<open>new ws.WebsocketClient(url)\<close>\<close>
  | WsDisconnect string               \<comment> \<open>\<open>ws.disconnect()\<close> on the client of that url\<close>
  | WsSend string jsval               \<comment> \<open>\<open>ws.send(message)\<close>\<close>
  | EchoPrivate string                \<comment> \<open>\<open>echo.private(channelName)\<close>\<close>
  | EchoLeave string                  \<comment> \<open>\<open>echo.leave(channelName)\<close>\<close>
  | ChannelSubscribed string          \<comment> \<open>\<open>channel.subscribed(callback)\<close>\<close>
  | ChannelError string               \<comment> \<open>\<open>channel.error(callback)\<close>\<close>
  | ChannelListen string string       \<comment> \<open>\<open>channel.listen(event, callback)\<close>\<close>
  | ChannelListenForWhisper string string
  | ChannelWhisper string string jsval \<comment> \<open>\<open>channel.whisper(event, data)\<close>\<close>
  | Emit string "jsval list"          \<comment> \<open>\<open>this.emit(name, args)\<close>\<close>
  | EmitLater string "jsval list"     \<comment> \<open>\<open>setTimeout(() => this.emit(name, args), 0)\<close>\<close>
  | ObservableDestroy                 \<comment> \<open>\<open>super.destroy()\<close>\<close>

fun isBackend :: "event \<Rightarrow> bool" where
  "isBackend (HookCall n args) = False"
| "isBackend (Emit n args) = False"
| "isBackend (EmitLater n args) = False"
| "isBackend ObservableDestroy = False"
| "isBackend _ = True"

text \<open>
  \<open>_callHook(hookName, ...args)\<close>: the settled promise (\<open>Inl\<close> rejected, \<open>Inr\<close> fulfilled)
  and the call it made, if any.
\<close>

definition callHook :: "hooks \<Rightarrow> string \<Rightarrow> jsval list \<Rightarrow> (jsval + jsval) \<times> event list" where
  "callHook hooks hookName args =
     (case hooks hookName of
        None \<Rightarrow> (Inr Undefined, [])
      | Some hook \<Rightarrow>
          ((case hook args of Returns v \<Rightarrow> Inr v | Throws e \<Rightarrow> Inl e),
           [HookCall hookName args]))"

text \<open>
  The \<open>catch\<close> block of \<open>connect\<close> and \<open>disconnect\<close>:
  \<open>await this._callHook(hookName, error); throw error\<close>. When the error hook throws, the
  \<open>throw error\<close> after it is not reached.
\<close>

definition catchError :: "hooks \<Rightarrow> string \<Rightarrow> jsval \<Rightarrow> (jsval + unit) \<times> event list" where
  "catchError hooks hookName error =
     (case callHook hooks hookName [error] of
        (Inl e', t) \<Rightarrow> (Inl e', t)
      | (Inr v, t) \<Rightarrow> (Inl error, t))"

text \<open>What a hook throws on given arguments, if it is there and throws.\<close>

definition thrown :: "hooks \<Rightarrow> string \<Rightarrow> jsval list \<Rightarrow> jsval option" where
  "thrown hooks hookName args =
     (case hooks hookName of
        None \<Rightarrow> None
      | Some hook \<Rightarrow> (case hook args of Returns v \<Rightarrow> None | Throws e \<Rightarrow> Some e))"

text \<open>
  The test of \<open>publish\<close> on the result of \<open>onBeforePublish\<close>:
  \<open>result && typeof result === 'object' && 'topic' in result && 'data' in result\<close>.
\<close>

definition substitute :: "jsval \<Rightarrow> jsval \<Rightarrow> jsval \<Rightarrow> jsval \<times> jsval" where
  "substitute result topic data =
     (if truthy result \<and> typeof result = ''object''
         \<and> hasProp ''topic'' result \<and> hasProp ''data'' result
      then (getProp result ''topic'', getProp result ''data'')
      else (topic, data))"

definition settled :: "jsval + jsval \<Rightarrow> jsval + unit" where
  "settled r = (case r of Inl e \<Rightarrow> Inl e | Inr v \<Rightarrow> Inr ())"


section \<open>DefaultSignalingAdapter\<close>

text \<open>
  The fields of the classes. \<open>ws\<close> is the websocket client, \<open>null\<close> or the client opened
  on an url.
\<close>

record SignalingAdapter =
  connected :: bool

record DefaultSignalingAdapter = SignalingAdapter +
  ws :: "string option"
  url :: string

text \<open>
  An asynchronous method returns its settled promise (\<open>Inl e\<close>: rejected with \<open>e\<close>), the
  adapter after it and the events in order.
\<close>

type_synonym 's run = "(jsval + unit) \<times> 's \<times> event list"

text \<open>
  \<open>disconnect\<close> in two parts, since \<open>connect\<close> and \<open>destroy\<close> call it without awaiting it:
  up to its first \<open>await\<close> it runs at once (the \<open>onBeforeDisconnect\<close> hook is called), the
  rest runs later, on the adapter as it is then.
\<close>

definition Default_disconnect_begin :: "hooks \<Rightarrow> (jsval + jsval) \<times> event list" where
  "Default_disconnect_begin hooks = callHook hooks ''onBeforeDisconnect'' []"

definition Default_disconnect_resume ::
  "hooks \<Rightarrow> jsval + jsval \<Rightarrow> DefaultSignalingAdapter \<Rightarrow> DefaultSignalingAdapter run" where
  "Default_disconnect_resume hooks r0 s =
     (case r0 of
        Inl e \<Rightarrow> (let (r, t) = catchError hooks ''onDisconnectError'' e in (r, s, t))
      | Inr v \<Rightarrow>
          let (s1, t1) = (case ws s of
                            Some w \<Rightarrow> (s\<lparr>ws := None\<rparr>, [WsDisconnect w])
                          | None \<Rightarrow> (s, []));
              s2 = s1\<lparr>connected := False\<rparr>;
              (r2, t2) = callHook hooks ''onAfterDisconnect'' []
          in case r2 of
               Inl e \<Rightarrow> (let (r, t) = catchError hooks ''onDisconnectError'' e
                         in (r, s2, t1 @ t2 @ t))
             | Inr v \<Rightarrow> (Inr (), s2, t1 @ t2))"

definition Default_disconnect :: "hooks \<Rightarrow> DefaultSignalingAdapter \<Rightarrow> DefaultSignalingAdapter run" where
  "Default_disconnect hooks s =
     (let (r0, t0) = Default_disconnect_begin hooks;
          (r, s', t) = Default_disconnect_resume hooks r0 s
      in (r, s', t0 @ t))"

text \<open>
  \<open>connect\<close> calls \<open>this.disconnect()\<close> without awaiting it, so the rest of that call
  runs in between the steps of \<open>connect\<close>. Both are chains of microtasks: each is resumed
  in a turn of its own, and since the detached call was suspended first, the turns
  alternate, the detached call going first. \<open>turns\<close> is the number of turns after which
  an \<open>await this._callHook(hookName, ...)\<close> is resumed: one when there is no hook (the
  promise is settled at the call) or when the hook throws at the call, two when the hook
  returns a value, and as many as \<open>ticks hookName\<close> says when the hook returns a promise
  that takes longer.
\<close>

type_synonym ticks = "string \<Rightarrow> nat"

definition turns :: "hooks \<Rightarrow> ticks \<Rightarrow> string \<Rightarrow> jsval list \<Rightarrow> nat" where
  "turns hooks ticks hookName args =
     (case hooks hookName of
        None \<Rightarrow> 1
      | Some hook \<Rightarrow>
          (case hook args of
             Returns v \<Rightarrow> max 2 (ticks hookName)
           | Throws e \<Rightarrow> max 1 (ticks hookName)))"

text \<open>The turns in which a suspended call does nothing, before the turn that resumes it.\<close>

definition idle :: "nat \<Rightarrow> event list list" where
  "idle k = replicate (k - 1) []"

text \<open>The teardown in the body of \<open>disconnect\<close>.\<close>

definition Default_teardown :: "DefaultSignalingAdapter \<Rightarrow> DefaultSignalingAdapter" where
  "Default_teardown s =
     (case ws s of Some w \<Rightarrow> s\<lparr>ws := None\<rparr> | None \<Rightarrow> s)\<lparr>connected := False\<rparr>"

text \<open>
  The rest of a detached \<open>disconnect\<close>, turn by turn: the events of each turn, and the
  number of the turn that does the teardown (\<open>0\<close> when \<open>onBeforeDisconnect\<close> has thrown and
  there is none). It is \<open>Default_disconnect_resume\<close> cut at its \<open>await\<close>s.
\<close>

definition Default_disconnect_turns ::
  "hooks \<Rightarrow> ticks \<Rightarrow> jsval + jsval \<Rightarrow> DefaultSignalingAdapter \<Rightarrow> event list list \<times> nat" where
  "Default_disconnect_turns hooks ticks r0 s =
     (let k = turns hooks ticks ''onBeforeDisconnect'' []
      in case r0 of
           Inl e \<Rightarrow> (idle k @ [snd (catchError hooks ''onDisconnectError'' e)], 0)
         | Inr v \<Rightarrow>
             let t1 = (case ws s of Some w \<Rightarrow> [WsDisconnect w] | None \<Rightarrow> []);
                 (r2, t2) = callHook hooks ''onAfterDisconnect'' []
             in case r2 of
                  Inl e \<Rightarrow>
                    (idle k @ [t1 @ t2] @ idle (turns hooks ticks ''onAfterDisconnect'' [])
                       @ [snd (catchError hooks ''onDisconnectError'' e)], k)
                | Inr v \<Rightarrow> (idle k @ [t1 @ t2], k))"

text \<open>
  The events of two chains whose turns alternate, the first chain going first, up to the
  last turn of the second chain.
\<close>

fun interleave :: "event list list \<Rightarrow> event list list \<Rightarrow> event list" where
  "interleave ds [] = []"
| "interleave [] (c # cs) = c @ interleave [] cs"
| "interleave (d # ds) (c # cs) = d @ c @ interleave ds cs"

text \<open>
  \<open>connect\<close> from the point where it is suspended for the first time after calling
  \<open>this.disconnect()\<close>. \<open>own\<close> are the turns of \<open>connect\<close>, the last one settling its promise
  with \<open>r\<close>; \<open>detached\<close> are the turns of the detached call. The first component is what the
  caller of \<open>connect\<close> gets: the promise, the adapter and the events when the promise
  settles. The second is the adapter once the detached call has finished too, and the
  events that come after the promise has settled.
\<close>

definition Default_settle ::
  "jsval + unit \<Rightarrow> DefaultSignalingAdapter \<Rightarrow> event list \<Rightarrow> event list list \<times> nat
     \<Rightarrow> event list list
     \<Rightarrow> DefaultSignalingAdapter run \<times> (DefaultSignalingAdapter \<times> event list)" where
  "Default_settle r s t detached own =
     ((r,
       (if 0 < snd detached \<and> snd detached \<le> length own then Default_teardown s else s),
       t @ interleave (fst detached) own),
      ((if 0 < snd detached then Default_teardown s else s),
       concat (drop (length own) (fst detached))))"

text \<open>
  The turns of the \<open>disconnect\<close> that \<open>connect\<close> detaches when a client exists, on the
  adapter \<open>s\<close> that \<open>connect\<close> leaves when it is suspended; none when no client exists.
\<close>

definition Default_detached ::
  "hooks \<Rightarrow> ticks \<Rightarrow> bool \<Rightarrow> DefaultSignalingAdapter \<Rightarrow> event list list \<times> nat" where
  "Default_detached hooks ticks spawned s =
     (if spawned
      then Default_disconnect_turns hooks ticks (fst (Default_disconnect_begin hooks)) s
      else ([], 0))"

text \<open>
  \<open>connect(url)\<close>. The constructor \<open>new ws.WebsocketClient(url)\<close> of \<open>_doConnect\<close> belongs
  to lib0 and opens the socket at once; whether it throws for an url is the parameter
  \<open>newWs\<close>. If a client exists, \<open>this.disconnect()\<close> is called and not awaited: its
  \<open>onBeforeDisconnect\<close> hook is called at once, and its teardown runs in a later turn, on
  the adapter as it is then, which is after \<open>_doConnect\<close>: it closes the client that
  \<open>_doConnect\<close> has just opened, or the old one when the constructor has thrown. A
  rejection of the detached call reaches no caller.
\<close>

definition Default_connect ::
  "(string \<Rightarrow> jsval option) \<Rightarrow> hooks \<Rightarrow> ticks \<Rightarrow> DefaultSignalingAdapter \<Rightarrow> string
     \<Rightarrow> DefaultSignalingAdapter run \<times> (DefaultSignalingAdapter \<times> event list)" where
  "Default_connect newWs hooks ticks s u =
     (let (r0, t0) = callHook hooks ''onBeforeConnect'' [Str u]
      in case r0 of
           Inl e \<Rightarrow> (let (r, t) = catchError hooks ''onConnectError'' e
                     in ((r, s, t0 @ t), (s, [])))
         | Inr v \<Rightarrow>
             let t1 = (if ws s \<noteq> None then snd (Default_disconnect_begin hooks) else []);
                 s1 = s\<lparr>url := u\<rparr>
             in case newWs u of
                  Some e \<Rightarrow>
                    let (r, t) = catchError hooks ''onConnectError'' e;
                        own = idle (turns hooks ticks ''onConnectError'' [e]) @ [Nil]
                    in Default_settle r s1 (t0 @ t1 @ [WsNew u] @ t)
                         (Default_detached hooks ticks (ws s \<noteq> None) s1) own
                | None \<Rightarrow>
                    let s2 = s1\<lparr>ws := Some u\<rparr>;
                        (r3, t3) = callHook hooks ''onAfterConnect'' [Str u];
                        k = turns hooks ticks ''onAfterConnect'' [Str u]
                    in case r3 of
                         Inl e \<Rightarrow>
                           let (r, t) = catchError hooks ''onConnectError'' e;
                               own = [t3] @ idle k @ [t]
                                     @ idle (turns hooks ticks ''onConnectError'' [e]) @ [Nil]
                           in Default_settle r s2 (t0 @ t1 @ [WsNew u])
                                (Default_detached hooks ticks (ws s \<noteq> None) s2) own
                       | Inr v \<Rightarrow>
                           Default_settle (Inr ()) s2 (t0 @ t1 @ [WsNew u])
                             (Default_detached hooks ticks (ws s \<noteq> None) s2)
                             ([t3] @ idle k @ [Nil]))"

text \<open>The handlers that \<open>_doConnect\<close> registers on the client.\<close>

definition Default_onWsConnect :: "DefaultSignalingAdapter \<Rightarrow> DefaultSignalingAdapter \<times> event list" where
  "Default_onWsConnect s = (s\<lparr>connected := True\<rparr>, [Emit ''connect'' []])"

definition Default_onWsDisconnect :: "DefaultSignalingAdapter \<Rightarrow> DefaultSignalingAdapter \<times> event list" where
  "Default_onWsDisconnect s = (s\<lparr>connected := False\<rparr>, [Emit ''disconnect'' []])"

definition sendIfConnected :: "DefaultSignalingAdapter \<Rightarrow> jsval \<Rightarrow> event list" where
  "sendIfConnected s message =
     (case ws s of
        Some w \<Rightarrow> if connected s then [WsSend w message] else []
      | None \<Rightarrow> [])"

definition Default_subscribe ::
  "hooks \<Rightarrow> DefaultSignalingAdapter \<Rightarrow> string list \<Rightarrow> DefaultSignalingAdapter run" where
  "Default_subscribe hooks s topics =
     (let (r0, t0) = callHook hooks ''onBeforeSubscribe'' [Arr (map Str topics)]
      in case r0 of
           Inl e \<Rightarrow> (Inl e, s, t0)
         | Inr v \<Rightarrow>
             let t1 = sendIfConnected s
                        (Obj [(''type'', Str ''subscribe''), (''topics'', Arr (map Str topics))]);
                 (r2, t2) = callHook hooks ''onAfterSubscribe'' [Arr (map Str topics)]
             in (settled r2, s, t0 @ t1 @ t2))"

definition Default_unsubscribe ::
  "hooks \<Rightarrow> DefaultSignalingAdapter \<Rightarrow> string list \<Rightarrow> DefaultSignalingAdapter run" where
  "Default_unsubscribe hooks s topics =
     (let (r0, t0) = callHook hooks ''onBeforeUnsubscribe'' [Arr (map Str topics)]
      in case r0 of
           Inl e \<Rightarrow> (Inl e, s, t0)
         | Inr v \<Rightarrow>
             let t1 = sendIfConnected s
                        (Obj [(''type'', Str ''unsubscribe''), (''topics'', Arr (map Str topics))]);
                 (r2, t2) = callHook hooks ''onAfterUnsubscribe'' [Arr (map Str topics)]
             in (settled r2, s, t0 @ t1 @ t2))"

definition Default_publish ::
  "hooks \<Rightarrow> DefaultSignalingAdapter \<Rightarrow> jsval \<Rightarrow> jsval \<Rightarrow> DefaultSignalingAdapter run" where
  "Default_publish hooks s topic data =
     (let (r0, t0) = callHook hooks ''onBeforePublish'' [topic, data]
      in case r0 of
           Inl e \<Rightarrow> (Inl e, s, t0)
         | Inr result \<Rightarrow>
             let (topic', data') = substitute result topic data;
                 t1 = sendIfConnected s
                        (Obj [(''type'', Str ''publish''), (''topic'', topic'), (''data'', data')]);
                 (r2, t2) = callHook hooks ''onAfterPublish'' [topic', data']
             in (settled r2, s, t0 @ t1 @ t2))"

text \<open>
  \<open>destroy\<close> calls \<open>this.disconnect()\<close> without awaiting it and then \<open>super.destroy()\<close>.
  Neither statement throws, so \<open>destroy\<close> completes normally; the promise of the detached
  \<open>disconnect\<close> is dropped, and it is the second component here. The adapter returned is
  the one after the detached call has run.
\<close>

definition Default_destroy ::
  "hooks \<Rightarrow> DefaultSignalingAdapter \<Rightarrow> DefaultSignalingAdapter run \<times> (jsval + unit)" where
  "Default_destroy hooks s =
     (let (r0, t0) = Default_disconnect_begin hooks;
          (r, s', t) = Default_disconnect_resume hooks r0 s
      in ((Inr (), s', t0 @ [ObservableDestroy] @ t), r))"

section \<open>LaravelEchoAdapter\<close>

text \<open>
  \<open>channels\<close> is a JavaScript \<open>Map\<close>, iterated by \<open>disconnect\<close> in insertion order: an
  association list, with \<open>AList.update\<close> for \<open>set\<close> (a new key goes last) and
  \<open>AList.delete\<close> for \<open>delete\<close>. A channel object is identified by its channel name.
\<close>

record LaravelEchoAdapter = SignalingAdapter +
  echo :: jsval
  channels :: "(string \<times> string) list"
  readyChannels :: "string set"
  messageQueue :: "(string \<times> jsval list) list"
  shouldConnect :: bool

definition getChannelName :: "string \<Rightarrow> string" where
  "getChannelName topic = ''y-webrtc.'' @ topic"

definition Echo_connect :: "hooks \<Rightarrow> LaravelEchoAdapter \<Rightarrow> string \<Rightarrow> LaravelEchoAdapter run" where
  "Echo_connect hooks s u =
     (let (r0, t0) = callHook hooks ''onBeforeConnect'' [Str u]
      in case r0 of
           Inl e \<Rightarrow> (let (r, t) = catchError hooks ''onConnectError'' e in (r, s, t0 @ t))
         | Inr v \<Rightarrow>
             let s1 = s\<lparr>shouldConnect := True, connected := True\<rparr>;
                 t1 = [EmitLater ''connect'' []];
                 (r2, t2) = callHook hooks ''onAfterConnect'' [Str u]
             in case r2 of
                  Inl e \<Rightarrow> (let (r, t) = catchError hooks ''onConnectError'' e
                            in (r, s1, t0 @ t1 @ t2 @ t))
                | Inr v \<Rightarrow> (Inr (), s1, t0 @ t1 @ t2))"

definition Echo_disconnect_begin :: "hooks \<Rightarrow> (jsval + jsval) \<times> event list" where
  "Echo_disconnect_begin hooks = callHook hooks ''onBeforeDisconnect'' []"

definition Echo_disconnect_resume ::
  "hooks \<Rightarrow> jsval + jsval \<Rightarrow> LaravelEchoAdapter \<Rightarrow> LaravelEchoAdapter run" where
  "Echo_disconnect_resume hooks r0 s =
     (case r0 of
        Inl e \<Rightarrow> (let (r, t) = catchError hooks ''onDisconnectError'' e in (r, s, t))
      | Inr v \<Rightarrow>
          let s1 = s\<lparr>shouldConnect := False, connected := False\<rparr>;
              t1 = map (\<lambda>(topic, channel). EchoLeave (getChannelName topic)) (channels s1);
              s2 = s1\<lparr>channels := [], readyChannels := {}, messageQueue := []\<rparr>;
              t1' = t1 @ [Emit ''disconnect'' []];
              (r2, t2) = callHook hooks ''onAfterDisconnect'' []
          in case r2 of
               Inl e \<Rightarrow> (let (r, t) = catchError hooks ''onDisconnectError'' e
                         in (r, s2, t1' @ t2 @ t))
             | Inr v \<Rightarrow> (Inr (), s2, t1' @ t2))"

definition Echo_disconnect :: "hooks \<Rightarrow> LaravelEchoAdapter \<Rightarrow> LaravelEchoAdapter run" where
  "Echo_disconnect hooks s =
     (let (r0, t0) = Echo_disconnect_begin hooks;
          (r, s', t) = Echo_disconnect_resume hooks r0 s
      in (r, s', t0 @ t))"

definition Echo_doSubscribe :: "LaravelEchoAdapter \<Rightarrow> string \<Rightarrow> LaravelEchoAdapter \<times> event list" where
  "Echo_doSubscribe s topic =
     (let channelName = getChannelName topic
      in (s\<lparr>channels := AList.update topic channelName (channels s)\<rparr>,
          [EchoPrivate channelName, ChannelSubscribed channelName, ChannelError channelName,
           ChannelListen channelName ''.signaling'',
           ChannelListenForWhisper channelName ''signaling'']))"

text \<open>
  The callback given to \<open>channel.subscribed\<close> in \<open>_doSubscribe\<close>, run by Echo when the
  subscription of \<open>topic\<close> on \<open>channel\<close> is acknowledged.
\<close>

definition Echo_onSubscribed ::
  "LaravelEchoAdapter \<Rightarrow> string \<Rightarrow> string \<Rightarrow> LaravelEchoAdapter \<times> event list" where
  "Echo_onSubscribed s topic channel =
     (let queuedMessages = (case map_of (messageQueue s) topic of Some q \<Rightarrow> q | None \<Rightarrow> [])
      in (s\<lparr>readyChannels := insert topic (readyChannels s),
            messageQueue := AList.delete topic (messageQueue s)\<rparr>,
          map (\<lambda>data. ChannelWhisper channel ''signaling'' data) queuedMessages))"

fun Echo_subscribeEach ::
  "LaravelEchoAdapter \<Rightarrow> string list \<Rightarrow> LaravelEchoAdapter \<times> event list" where
  "Echo_subscribeEach s [] = (s, [])"
| "Echo_subscribeEach s (topic # topics) =
     (let (s1, t1) = (if map_of (channels s) topic \<noteq> None then (s, [])
                      else Echo_doSubscribe s topic);
          (s2, t2) = Echo_subscribeEach s1 topics
      in (s2, t1 @ t2))"

definition Echo_subscribe ::
  "hooks \<Rightarrow> LaravelEchoAdapter \<Rightarrow> string list \<Rightarrow> LaravelEchoAdapter run" where
  "Echo_subscribe hooks s topics =
     (let (r0, t0) = callHook hooks ''onBeforeSubscribe'' [Arr (map Str topics)]
      in case r0 of
           Inl e \<Rightarrow> (Inl e, s, t0)
         | Inr v \<Rightarrow>
             if \<not> shouldConnect s \<or> \<not> truthy (echo s)
             then (let (r1, t1) = callHook hooks ''onAfterSubscribe'' [Arr (map Str topics)]
                   in (settled r1, s, t0 @ t1))
             else
               let (s1, t1) = Echo_subscribeEach s topics;
                   (r2, t2) = callHook hooks ''onAfterSubscribe'' [Arr (map Str topics)]
               in (settled r2, s1, t0 @ t1 @ t2))"

definition Echo_doUnsubscribe :: "LaravelEchoAdapter \<Rightarrow> string \<Rightarrow> LaravelEchoAdapter \<times> event list" where
  "Echo_doUnsubscribe s topic =
     (case map_of (channels s) topic of
        Some channel \<Rightarrow>
          (s\<lparr>channels := AList.delete topic (channels s),
             readyChannels := readyChannels s - {topic},
             messageQueue := AList.delete topic (messageQueue s)\<rparr>,
           [EchoLeave (getChannelName topic)])
      | None \<Rightarrow> (s, []))"

fun Echo_unsubscribeEach ::
  "LaravelEchoAdapter \<Rightarrow> string list \<Rightarrow> LaravelEchoAdapter \<times> event list" where
  "Echo_unsubscribeEach s [] = (s, [])"
| "Echo_unsubscribeEach s (topic # topics) =
     (let (s1, t1) = Echo_doUnsubscribe s topic;
          (s2, t2) = Echo_unsubscribeEach s1 topics
      in (s2, t1 @ t2))"

definition Echo_unsubscribe ::
  "hooks \<Rightarrow> LaravelEchoAdapter \<Rightarrow> string list \<Rightarrow> LaravelEchoAdapter run" where
  "Echo_unsubscribe hooks s topics =
     (let (r0, t0) = callHook hooks ''onBeforeUnsubscribe'' [Arr (map Str topics)]
      in case r0 of
           Inl e \<Rightarrow> (Inl e, s, t0)
         | Inr v \<Rightarrow>
             let (s1, t1) = Echo_unsubscribeEach s topics;
                 (r2, t2) = callHook hooks ''onAfterUnsubscribe'' [Arr (map Str topics)]
             in (settled r2, s1, t0 @ t1 @ t2))"

text \<open>
  \<open>_doPublish(topic, data)\<close>. The keys of \<open>channels\<close> are strings, so a topic that is not
  a string (one put there by \<open>onBeforePublish\<close>) finds no channel.
\<close>

definition Echo_doPublish :: "LaravelEchoAdapter \<Rightarrow> jsval \<Rightarrow> jsval \<Rightarrow> LaravelEchoAdapter \<times> event list" where
  "Echo_doPublish s topic data =
     (case topic of
        Str t \<Rightarrow>
          (case map_of (channels s) t of
             None \<Rightarrow> (s, [])
           | Some channel \<Rightarrow>
               if t \<in> readyChannels s then (s, [ChannelWhisper channel ''signaling'' data])
               else
                 let queued = (case map_of (messageQueue s) t of Some q \<Rightarrow> q | None \<Rightarrow> [])
                 in (s\<lparr>messageQueue := AList.update t (queued @ [data]) (messageQueue s)\<rparr>, []))
      | _ \<Rightarrow> (s, []))"

definition Echo_publish ::
  "hooks \<Rightarrow> LaravelEchoAdapter \<Rightarrow> jsval \<Rightarrow> jsval \<Rightarrow> LaravelEchoAdapter run" where
  "Echo_publish hooks s topic data =
     (let (r0, t0) = callHook hooks ''onBeforePublish'' [topic, data]
      in case r0 of
           Inl e \<Rightarrow> (Inl e, s, t0)
         | Inr result \<Rightarrow>
             let (topic', data') = substitute result topic data;
                 (s1, t1) = Echo_doPublish s topic' data';
                 (r2, t2) = callHook hooks ''onAfterPublish'' [topic', data']
             in (settled r2, s1, t0 @ t1 @ t2))"

definition Echo_destroy ::
  "hooks \<Rightarrow> LaravelEchoAdapter \<Rightarrow> LaravelEchoAdapter run \<times> (jsval + unit)" where
  "Echo_destroy hooks s =
     (let (r0, t0) = Echo_disconnect_begin hooks;
          (r, s', t) = Echo_disconnect_resume hooks r0 s
      in ((Inr (), s', t0 @ [ObservableDestroy] @ t), r))"

text \<open>
  The operations and callbacks of a \<open>LaravelEchoAdapter\<close> as inputs, each call with the
  hook table it meets, and the adapter after one of them. The adapter only changes in
  blocks without an \<open>await\<close> (the body of \<open>connect\<close> and of \<open>disconnect\<close>, \<open>_doSubscribe\<close>,
  \<open>_doUnsubscribe\<close>, \<open>_doPublish\<close>, the \<open>subscribed\<close> callback), so a call is one step.
\<close>

datatype echoOp =
    OpConnect hooks string
  | OpDisconnect hooks
  | OpDestroy hooks
  | OpSubscribe hooks "string list"
  | OpUnsubscribe hooks "string list"
  | OpPublish hooks jsval jsval
  | OpSubscribed string string  \<comment> \<open>the \<open>subscribed\<close> callback of a topic and channel\<close>

fun echoStep :: "LaravelEchoAdapter \<Rightarrow> echoOp \<Rightarrow> LaravelEchoAdapter" where
  "echoStep s (OpConnect hooks u) = fst (snd (Echo_connect hooks s u))"
| "echoStep s (OpDisconnect hooks) = fst (snd (Echo_disconnect hooks s))"
| "echoStep s (OpDestroy hooks) = fst (snd (fst (Echo_destroy hooks s)))"
| "echoStep s (OpSubscribe hooks topics) = fst (snd (Echo_subscribe hooks s topics))"
| "echoStep s (OpUnsubscribe hooks topics) = fst (snd (Echo_unsubscribe hooks s topics))"
| "echoStep s (OpPublish hooks topic data) = fst (snd (Echo_publish hooks s topic data))"
| "echoStep s (OpSubscribed topic channel) = fst (Echo_onSubscribed s topic channel)"

text \<open>
  The queue invariant: every topic with an entry in \<open>messageQueue\<close> is a key of
  \<open>channels\<close> and is not in \<open>readyChannels\<close>.
\<close>

definition queueInv :: "LaravelEchoAdapter \<Rightarrow> bool" where
  "queueInv s =
     (\<forall>t \<in> set (map fst (messageQueue s)).
        t \<in> set (map fst (channels s)) \<and> t \<notin> readyChannels s)"


section \<open>createSignalingAdapter\<close>

text \<open>
  Adapters are objects with identity: the heap is the list of the adapters that exist,
  a reference is an index into it, and \<open>new\<close> puts the object at the end. An object is its
  class, the \<open>hooks\<close> object given to its constructor and its fields.
\<close>

datatype adapter =
    DefaultAdapter jsval DefaultSignalingAdapter
  | EchoAdapter jsval LaravelEchoAdapter

definition Default_init :: DefaultSignalingAdapter where
  "Default_init = \<lparr>connected = False, ws = None, url = []\<rparr>"

definition Echo_init :: "jsval \<Rightarrow> LaravelEchoAdapter" where
  "Echo_init echoInstance =
     \<lparr>connected = False, echo = echoInstance, channels = [], readyChannels = {},
      messageQueue = [], shouldConnect = False\<rparr>"

definition new :: "adapter list \<Rightarrow> adapter \<Rightarrow> nat \<times> adapter list" where
  "new heap a = (length heap, heap @ [a])"

fun instanceofSignalingAdapter :: "jsval \<Rightarrow> bool" where
  "instanceofSignalingAdapter (AdapterRef r) = True"
| "instanceofSignalingAdapter _ = False"

fun refOf :: "jsval \<Rightarrow> nat" where
  "refOf (AdapterRef r) = r"
| "refOf _ = 0"

definition createSignalingAdapter :: "adapter list \<Rightarrow> jsval \<Rightarrow> jsval + nat \<times> adapter list" where
  "createSignalingAdapter heap config =
     (if instanceofSignalingAdapter config then Inr (refOf config, heap)
      else if typeof config = ''string'' then Inr (new heap (DefaultAdapter (Obj []) Default_init))
      else if typeof config = ''object'' \<and> config \<noteq> Null then
        let hooks = (if truthy (getProp config ''hooks'') then getProp config ''hooks''
                     else Obj [])
        in if getProp config ''type'' = Str ''echo'' then
             if \<not> truthy (getProp config ''echo'')
             then Inl (Error ''Laravel Echo instance is required for LaravelEchoAdapter'')
             else Inr (new heap (EchoAdapter hooks (Echo_init (getProp config ''echo''))))
           else Inr (new heap (DefaultAdapter hooks Default_init))
      else Inr (new heap (DefaultAdapter (Obj []) Default_init)))"

section \<open>The hook contract\<close>

text \<open>
  The terms in which the behaviour of an operation with hooks is stated. The operation
  runs \<open>before hook; effect; after hook\<close>; its failure is the first thing among them that
  throws.
\<close>

fun firstFailure :: "jsval option list \<Rightarrow> jsval option" where
  "firstFailure [] = None"
| "firstFailure (Some e # xs) = Some e"
| "firstFailure (None # xs) = firstFailure xs"

text \<open>The call of a hook as an event (none when the hook is not there) and its value.\<close>

definition called :: "hooks \<Rightarrow> string \<Rightarrow> jsval list \<Rightarrow> event list" where
  "called hooks hookName args = (if hooks hookName = None then [] else [HookCall hookName args])"

definition returned :: "hooks \<Rightarrow> string \<Rightarrow> jsval list \<Rightarrow> jsval" where
  "returned hooks hookName args =
     (case hooks hookName of
        None \<Rightarrow> Undefined
      | Some hook \<Rightarrow> (case hook args of Returns v \<Rightarrow> v | Throws e \<Rightarrow> Undefined))"

text \<open>
  The settled promise of an operation with a \<open>catch\<close> block for \<open>errorHook\<close>, and of one
  without.
\<close>

definition raised :: "hooks \<Rightarrow> string \<Rightarrow> jsval option \<Rightarrow> jsval + unit" where
  "raised hooks errorHook failure =
     (case failure of
        None \<Rightarrow> Inr ()
      | Some e \<Rightarrow> (case thrown hooks errorHook [e] of None \<Rightarrow> Inl e | Some e' \<Rightarrow> Inl e'))"

definition failed :: "jsval option \<Rightarrow> jsval + unit" where
  "failed failure = (case failure of None \<Rightarrow> Inr () | Some e \<Rightarrow> Inl e)"

text \<open>
  The contract of an operation that ran from \<open>s\<close> and returned \<open>run\<close>: the before hook is
  the first event; if it throws, nothing else has happened; the after hook is called only
  if neither the before hook nor the effect failed; on a failure the error hook is
  called with that failure, and it is called in no other case and with nothing else; and
  the promise settles as \<open>raised\<close> says.
\<close>

definition hookContract ::
  "hooks \<Rightarrow> string \<Rightarrow> string \<Rightarrow> string \<Rightarrow> jsval list \<Rightarrow> jsval option \<Rightarrow> 's \<Rightarrow> 's run \<Rightarrow> bool" where
  "hookContract hooks before after errorHook args effectError s run =
     (let failure = firstFailure [thrown hooks before args, effectError, thrown hooks after args];
          r = fst run; s' = fst (snd run); tr = snd (snd run)
      in prefix (called hooks before args) tr
       \<and> (thrown hooks before args \<noteq> None \<longrightarrow> s' = s \<and> filter isBackend tr = [])
       \<and> (HookCall after args \<in> set tr \<longrightarrow> thrown hooks before args = None \<and> effectError = None)
       \<and> (\<forall>e. failure = Some e \<longrightarrow> set (called hooks errorHook [e]) \<subseteq> set tr)
       \<and> (\<forall>e. HookCall errorHook [e] \<in> set tr \<longrightarrow> failure = Some e)
       \<and> r = raised hooks errorHook failure)"

text \<open>The messages queued for a topic, none when the topic has no queue.\<close>

definition queued :: "LaravelEchoAdapter \<Rightarrow> string \<Rightarrow> jsval list" where
  "queued s topic = (case map_of (messageQueue s) topic of Some q \<Rightarrow> q | None \<Rightarrow> [])"

text \<open>The error of \<open>createSignalingAdapter\<close>.\<close>

definition missingEcho :: jsval where
  "missingEcho = Error ''Laravel Echo instance is required for LaravelEchoAdapter''"

section \<open>Example inputs\<close>

definition alwaysThrows :: "jsval \<Rightarrow> hook" where
  "alwaysThrows e = (\<lambda>args. Throws e)"

definition alwaysReturns :: "jsval \<Rightarrow> hook" where
  "alwaysReturns v = (\<lambda>args. Returns v)"

definition noHooks :: hooks where
  "noHooks = map_of []"

definition throwingErrorHooks :: hooks where
  "throwingErrorHooks =
     map_of [(''onBeforeConnect'', alwaysThrows (Str ''first'')),
             (''onConnectError'', alwaysThrows (Str ''second''))]"

definition throwingBeforeHooks :: hooks where
  "throwingBeforeHooks =
     map_of [(''onBeforeDisconnect'', alwaysThrows (Str ''boom'')),
             (''onBeforeSubscribe'', alwaysThrows (Str ''boom''))]"

definition rewritingHooks :: hooks where
  "rewritingHooks =
     map_of [(''onBeforePublish'',
              alwaysReturns (Obj [(''topic'', Str ''other''), (''data'', Num 2)]))]"

definition noTicks :: ticks where
  "noTicks = (\<lambda>hookName. 0)"

definition noWsError :: "string \<Rightarrow> jsval option" where
  "noWsError u = None"

definition connectedAdapter :: DefaultSignalingAdapter where
  "connectedAdapter = \<lparr>connected = True, ws = Some ''wss://signal'', url = ''wss://signal''\<rparr>"

definition badUrl :: "string \<Rightarrow> jsval option" where
  "badUrl u = Some (Error ''invalid url'')"

definition observingHooks :: hooks where
  "observingHooks =
     map_of [(''onBeforeConnect'', alwaysReturns Undefined),
             (''onAfterConnect'', alwaysReturns Undefined),
             (''onConnectError'', alwaysReturns Undefined)]"

definition subscribedAdapter :: LaravelEchoAdapter where
  "subscribedAdapter =
     \<lparr>connected = True, echo = Obj [], channels = [(''room'', ''y-webrtc.room'')],
      readyChannels = {}, messageQueue = [(''room'', [Num 1])], shouldConnect = True\<rparr>"

definition keepingHooks :: hooks where
  "keepingHooks = map_of [(''onBeforePublish'', alwaysReturns (Obj [(''topic'', Str ''other'')]))]"


definition exampleOps :: "echoOp list" where
  "exampleOps =
     [OpConnect noHooks ''wss://signal'', OpSubscribe noHooks [''a'', ''b''],
      OpPublish noHooks (Str ''a'') (Num 1), OpPublish noHooks (Str ''b'') (Num 2),
      OpSubscribed ''a'' ''y-webrtc.a'', OpPublish noHooks (Str ''a'') (Num 3),
      OpPublish noHooks (Str ''c'') (Num 4)]"


section \<open>Properties of the ChunkCodec\<close>

lemma concat_chunkData_take: "concat (map (chunkData m L) [0..<n]) = take (n * L) m"
proof (induction n)
  case 0
  show ?case by simp
next
  case (Suc n)
  have "take (Suc n * L) m = take (n * L + L) m" by (simp add: add.commute)
  also have "\<dots> = take (n * L) m @ take L (drop (n * L) m)" by (rule take_add)
  finally show ?case using Suc by (simp add: chunkData_def)
qed

lemma totalParts_covers: "0 < L \<Longrightarrow> len \<le> totalParts len L * L"
proof -
  assume L: "0 < L"
  have "len + L - 1 < ((len + L - 1) div L) * L + L"
    using L by (metis add.commute div_less_iff_less_mult less_add_same_cancel1 less_irrefl_nat linorder_neqE_nat mult.commute mult_Suc not_less_eq div_mult_mod_eq mod_less_divisor add_less_cancel_left) 
  then show ?thesis using L by (simp add: totalParts_def)
qed

lemma length_filled: "k \<le> n \<Longrightarrow> length (filled m L n k) = n"
  by (simp add: filled_def)

lemma filled_update: "k < n \<Longrightarrow> (filled m L n k)[k := Some (chunkData m L k)] = filled m L n (Suc k)"
  by (cases "n - k") (auto simp: filled_def list_update_append)

lemma None_in_filled: "k \<le> n \<Longrightarrow> None \<in> set (filled m L n k) \<longleftrightarrow> k < n"
  by (auto simp: filled_def)

lemma the_filled: "map the (filled m L n n) = map (chunkData m L) [0..<n]"
  by (simp add: filled_def comp_def)

lemma reassemble_step:
  assumes "k < n" and "bufOf st peer cid n = filled m L n k" and "(peer, cid) \<notin> deleted st"
  shows "reassemble st peer (Chunk cid k n (chunkData m L k)) =
     (if Suc k = n
      then (Complete (concat (map (chunkData m L) [0..<n])),
            st\<lparr>live := (live st)((peer, cid) := None),
               deleted := insert (peer, cid) (deleted st)\<rparr>)
      else (Incomplete, st\<lparr>live := (live st)((peer, cid) \<mapsto> filled m L n (Suc k))\<rparr>))"
proof -
  have b: "(case live st (peer, cid) of Some b \<Rightarrow> b | None \<Rightarrow> replicate n None) = filled m L n k"
    using assms(2) by (simp add: bufOf_def)
  have l: "length (filled m L n k) = n" using assms(1) by (simp add: length_filled)
  have u: "(filled m L n k)[k := Some (chunkData m L k)] = filled m L n (Suc k)"
    using assms(1) by (rule filled_update)
  have n: "None \<in> set (filled m L n (Suc k)) \<longleftrightarrow> Suc k < n"
    using assms(1) by (simp add: None_in_filled)
  show ?thesis
  proof (cases "Suc k = n")
    case True
    then show ?thesis using assms(1,3) b l u n the_filled[of m L n]
      by (simp add: reassemble_def Let_def)
  next
    case False
    then have "Suc k < n" using assms(1) by simp
    then show ?thesis using assms(1,3) b l u n
      by (simp add: reassemble_def Let_def)
  qed
qed

lemma feed_chunks_from:
  "k < n \<Longrightarrow> bufOf st peer cid n = filled m L n k \<Longrightarrow> (peer, cid) \<notin> deleted st \<Longrightarrow>
   feed st peer (map (\<lambda>i. Chunk cid i n (chunkData m L i)) [k..<n]) =
     (replicate (n - Suc k) Incomplete @ [Complete (concat (map (chunkData m L) [0..<n]))],
      st\<lparr>live := (live st)((peer, cid) := None), deleted := insert (peer, cid) (deleted st)\<rparr>)"
proof (induction "n - k" arbitrary: k st)
  case 0
  then show ?case by simp
next
  case (Suc d)
  have up: "[k..<n] = k # [Suc k..<n]" using Suc.prems(1) by (simp add: upt_conv_Cons)
  note st = reassemble_step[OF Suc.prems(1) Suc.prems(2) Suc.prems(3)]
  show ?case
  proof (cases "Suc k = n")
    case True
    then show ?thesis using st up by simp
  next
    case False
    then have lt: "Suc k < n" using Suc.prems(1) by simp
    let ?st = "st\<lparr>live := (live st)((peer, cid) \<mapsto> filled m L n (Suc k))\<rparr>"
    have d: "d = n - Suc k" using Suc.hyps(2) by simp
    have b: "bufOf ?st peer cid n = filled m L n (Suc k)" by (simp add: bufOf_def)
    have nd: "(peer, cid) \<notin> deleted ?st" using Suc.prems(3) by simp
    have ih: "feed ?st peer (map (\<lambda>i. Chunk cid i n (chunkData m L i)) [Suc k..<n]) =
     (replicate (n - Suc (Suc k)) Incomplete @ [Complete (concat (map (chunkData m L) [0..<n]))],
      ?st\<lparr>live := (live ?st)((peer, cid) := None), deleted := insert (peer, cid) (deleted ?st)\<rparr>)"
      by (rule Suc.hyps(1)[OF d lt b nd])
    have r: "replicate (n - Suc k) Incomplete = Incomplete # replicate (n - Suc (Suc k)) Incomplete"
      using lt by (cases "n - Suc k") auto
    show ?thesis using False st up ih r by simp
  qed
qed

lemma bufOf_fresh: "live st (peer, cid) = None \<Longrightarrow> bufOf st peer cid n = filled m L n 0"
  by (simp add: bufOf_def filled_def)

lemma roundTrip_fresh:
  assumes "0 < L" and "fresh st peer cid"
  shows "roundTrip st peer cid m L"
proof (cases "length m \<le> L")
  case True
  then show ?thesis by (simp add: roundTrip_def delivered_def fragment_def reassemble_def)
next
  case False
  let ?n = "totalParts (length m) L"
  have cov: "length m \<le> ?n * L" using assms(1) by (rule totalParts_covers)
  have n0: "0 < ?n" using cov False by (cases "?n") auto
  have c: "concat (map (chunkData m L) [0..<?n]) = m"
    using cov by (simp add: concat_chunkData_take)
  have l: "live st (peer, cid) = None" and nd: "(peer, cid) \<notin> deleted st"
    using assms(2) by (simp_all add: fresh_def)
  have t: "(live st)((peer, cid) := None) = live st" using l by (simp add: fun_upd_idem_iff)
  have f: "fragment m L cid = map (\<lambda>i. Chunk cid i ?n (chunkData m L i)) [0..<?n]"
    using False by (simp add: fragment_def Let_def)
  have b: "bufOf st peer cid ?n = filled m L ?n 0"
    using l by (rule bufOf_fresh)
  show ?thesis
    using feed_chunks_from[OF n0 b nd] f c t False by (simp add: roundTrip_def delivered_def)
qed

lemma fresh_noBuffers: "fresh noBuffers peer cid"
  by (simp add: fresh_def noBuffers_def)

lemma CHUNK_SIZE_pos: "0 < CHUNK_SIZE"
  by (simp add: CHUNK_SIZE_def)

text \<open>
  Claim C1 (round trip): for every byte string \<open>m\<close> and every limit \<open>L\<close>, a positive
  number, feeding the frames of \<open>fragment m L\<close> in order to \<open>reassemble\<close> under one peer id
  gives \<open>Incomplete\<close> for every frame but the last and \<open>Complete m\<close> for the last: from the
  state of a peer without buffers, and from every state in which the chunk id is fresh
  for the peer, as a newly drawn one is. The single \<open>Plain\<close> frame of a payload of at most
  \<open>L\<close> bytes is included, and so is \<open>createChunks\<close>, whose limit is \<open>CHUNK_SIZE\<close>.
\<close>

theorem C1_roundtrip:
  assumes "0 < L"
  shows "roundTrip noBuffers peer cid m L
         \<and> (fresh st peer cid \<longrightarrow> roundTrip st peer cid m L)
         \<and> (fresh st peer cid \<longrightarrow>
              feed st peer (createChunks m cid) =
                (replicate (length (createChunks m cid) - 1) Incomplete @ [Complete m],
                 delivered st peer cid m CHUNK_SIZE))"
  using roundTrip_fresh [OF assms] roundTrip_fresh [OF CHUNK_SIZE_pos, of st peer cid m]
    fresh_noBuffers [of peer cid]
  by (simp add: createChunks_def roundTrip_def)

text \<open>Three bytes under the limit 2 are two chunks, two bytes are one plain frame.\<close>

theorem C1_roundtrip_witness:
  "0 < (2::nat)
   \<and> fragment [1, 2, 3] 2 ''id'' = [Chunk ''id'' 0 2 [1, 2], Chunk ''id'' 1 2 [3]]
   \<and> feed noBuffers ''peer'' (fragment [1, 2, 3] 2 ''id'')
       = ([Incomplete, Complete [1, 2, 3]], noBuffers\<lparr>deleted := {(''peer'', ''id'')}\<rparr>)
   \<and> fragment [1, 2] 2 ''id'' = [Plain [1, 2]]
   \<and> feed noBuffers ''peer'' (fragment [1, 2] 2 ''id'') = ([Complete [1, 2]], noBuffers)"
proof -
  have f3: "fragment [1, 2, 3] 2 ''id'' = [Chunk ''id'' 0 2 [1, 2], Chunk ''id'' 1 2 [3]]"
    by (simp add: fragment_def totalParts_def chunkData_def upt_rec)
  have f2: "fragment [1, 2] 2 ''id'' = [Plain [1, 2]]"
    by (simp add: fragment_def)
  have r3: "feed noBuffers ''peer'' [Chunk ''id'' 0 2 [1, 2], Chunk ''id'' 1 2 [3]]
       = ([Incomplete, Complete [1, 2, 3]], noBuffers\<lparr>deleted := {(''peer'', ''id'')}\<rparr>)"
    by (simp add: reassemble_def noBuffers_def numeral_2_eq_2)
  have r2: "feed noBuffers ''peer'' [Plain [1, 2]] = ([Complete [1, 2]], noBuffers)"
    by (simp add: reassemble_def)
  show ?thesis
    using C1_roundtrip [of 2 "''peer''" "''id''" "[1, 2, 3]" noBuffers]
          C1_roundtrip [of 2 "''peer''" "''id''" "[1, 2]" noBuffers] f3 f2 r3 r2
    by simp
qed

lemma stale_ignored:
  "stale st peer cid \<Longrightarrow> reassemble st peer (Chunk cid i n p) = (Incomplete, st)"
  by (simp add: stale_def reassemble_def)

lemma completed_stale:
  "reassemble st peer (Chunk cid i n p) = (Complete x, st') \<Longrightarrow> stale st' peer cid"
  by (auto simp: reassemble_def stale_def Let_def split: if_splits)

lemma purged_stale:
  "live st (peer, cid) \<noteq> None \<Longrightarrow> stale (purge st peer) peer cid"
  by (simp add: purge_def stale_def)

lemma stale_reassemble:
  "stale st peer cid \<Longrightarrow> stale (snd (reassemble st peer' fr)) peer cid"
  by (cases fr) (auto simp: reassemble_def stale_def Let_def)

lemma stale_purge:
  "stale st peer cid \<Longrightarrow> stale (purge st peer') peer cid"
  by (simp add: purge_def stale_def)

text \<open>
  Claim C2 (stale chunk): a key is stale once its buffer was deleted, by the frame that
  completed the message or by a purge of the peer while the buffer was there, and it stays
  stale whatever frames arrive and whatever peers are purged afterwards. A \<open>Chunk\<close> frame
  for a stale key returns \<open>Incomplete\<close> and leaves the state as it is; the table has no
  entry for the key before and none after.
\<close>

theorem C2_stale_chunk:
  "(reassemble st peer (Chunk cid i n p) = (Complete x, st') \<longrightarrow> stale st' peer cid)
   \<and> (live st (peer, cid) \<noteq> None \<longrightarrow> stale (purge st peer) peer cid)
   \<and> (stale st peer cid \<longrightarrow>
        stale (snd (reassemble st peer' fr)) peer cid \<and> stale (purge st peer') peer cid)
   \<and> (stale st peer cid \<longrightarrow>
        reassemble st peer (Chunk cid j k q) = (Incomplete, st)
        \<and> live (snd (reassemble st peer (Chunk cid j k q))) (peer, cid) = None)"
  by (auto simp: stale_ignored completed_stale purged_stale stale_reassemble stale_purge
           dest: completed_stale) (simp add: stale_def)

text \<open>
  The second frame of a message of two, fed again after the message was completed, and
  fed after the peer was purged in the middle of the message.
\<close>

theorem C2_stale_chunk_witness:
  "live halfFed (''peer'', ''id'') = Some [Some [1], None]
   \<and> reassemble halfFed ''peer'' (Chunk ''id'' 1 2 [2]) = (Complete [1, 2], allFed)
   \<and> stale allFed ''peer'' ''id''
   \<and> reassemble allFed ''peer'' (Chunk ''id'' 1 2 [2]) = (Incomplete, allFed)
   \<and> live allFed (''peer'', ''id'') = None
   \<and> stale (purge halfFed ''peer'') ''peer'' ''id''
   \<and> reassemble (purge halfFed ''peer'') ''peer'' (Chunk ''id'' 1 2 [2])
       = (Incomplete, purge halfFed ''peer'')
   \<and> live (purge halfFed ''peer'') (''peer'', ''id'') = None"
proof -
  have h: "live halfFed (''peer'', ''id'') = Some [Some [1], None]"
    "(''peer'', ''id'') \<notin> deleted halfFed"
    by (simp_all add: halfFed_def reassemble_def noBuffers_def numeral_2_eq_2)
  have a: "reassemble halfFed ''peer'' (Chunk ''id'' 1 2 [2]) = (Complete [1, 2], allFed)"
    using h by (simp add: allFed_def reassemble_def)
  show ?thesis
    using h a
      C2_stale_chunk [of halfFed "''peer''" "''id''" 1 2 "[2]" "[1, 2]" allFed "''peer''"
                         "Plain []" 1 2 "[2]"]
      C2_stale_chunk [of allFed "''peer''" "''id''" 1 2 "[2]" "[1, 2]" allFed "''peer''"
                         "Plain []" 1 2 "[2]"]
      C2_stale_chunk [of "purge halfFed ''peer''" "''peer''" "''id''" 1 2 "[2]" "[1, 2]" allFed
                         "''peer''" "Plain []" 1 2 "[2]"]
    by (simp add: stale_def)
qed

section \<open>Properties of the adapters\<close>

text \<open>Each operation in terms of what its hooks throw, which is what the proofs split on.\<close>

lemma callHook_eq:
  "callHook hooks n args =
     ((case thrown hooks n args of Some e \<Rightarrow> Inl e | None \<Rightarrow> Inr (returned hooks n args)),
      called hooks n args)"
  by (simp add: callHook_def thrown_def called_def returned_def split: option.splits outcome.splits)

lemma catchError_eq:
  "catchError hooks n e = (raised hooks n (Some e), called hooks n [e])"
  by (simp add: catchError_def callHook_eq raised_def split: option.splits)


lemma filter_called [simp]: "filter isBackend (called hooks n args) = []"
  by (simp add: called_def)

lemma in_called_iff [simp]:
  "(HookCall n a \<in> set (called hooks m b)) = (n = m \<and> a = b \<and> hooks m \<noteq> None)"
  by (auto simp: called_def)

lemma set_interleave:
  "set (interleave ds cs) = set (concat (take (length cs) ds)) \<union> set (concat cs)"
  by (induction ds cs rule: interleave.induct) auto

lemma concat_idle [simp]: "concat (idle k) = []"
  by (simp add: idle_def)

lemma set_concat_take: "set (concat (take n xs)) \<subseteq> set (concat xs)"
  by (metis append_take_drop_id concat_append set_append Un_upper1)

lemma in_idle [simp]: "(x \<in> set (idle k)) = (x = [] \<and> 1 < k)"
  by (auto simp: idle_def)

lemma concat_turns:
  "concat (fst (Default_disconnect_turns hooks ticks r0 s)) =
     (case r0 of
        Inl e \<Rightarrow> called hooks ''onDisconnectError'' [e]
      | Inr v \<Rightarrow>
          (case ws s of Some w \<Rightarrow> [WsDisconnect w] | None \<Rightarrow> [])
          @ called hooks ''onAfterDisconnect'' []
          @ (case thrown hooks ''onAfterDisconnect'' [] of
               Some e \<Rightarrow> called hooks ''onDisconnectError'' [e]
             | None \<Rightarrow> []))"
proof (cases r0)
  case (Inl e)
  then show ?thesis
    by (simp add: Default_disconnect_turns_def catchError_eq Let_def)
next
  case (Inr v)
  then show ?thesis
    by (cases "thrown hooks ''onAfterDisconnect'' []")
       (simp_all add: Default_disconnect_turns_def callHook_eq catchError_eq Let_def)
qed

lemma turns_hooks:
  assumes "HookCall n a \<in> set (concat (fst (Default_disconnect_turns hooks ticks r0 s)))"
  shows "n = ''onAfterDisconnect'' \<or> n = ''onDisconnectError''"
proof (cases r0)
  case (Inl e)
  then show ?thesis using assms by (simp add: concat_turns)
next
  case (Inr v)
  then show ?thesis using assms
    by (cases "thrown hooks ''onAfterDisconnect'' []"; cases "ws s")
       (auto simp: concat_turns)
qed

lemma detached_hooks:
  assumes "HookCall n a \<in> set (concat (take k (fst (Default_detached hooks ticks b s))))"
  shows "n = ''onAfterDisconnect'' \<or> n = ''onDisconnectError''"
proof -
  have "HookCall n a \<in> set (concat (fst (Default_detached hooks ticks b s)))"
    by (rule subsetD [OF set_concat_take assms])
  then show ?thesis
    using turns_hooks [of n a hooks ticks "fst (Default_disconnect_begin hooks)" s]
    by (cases b) (simp_all add: Default_detached_def)
qed

lemma settle_result: "fst (fst (Default_settle r s t D own)) = r"
  by (simp add: Default_settle_def)

lemma settle_trace:
  "snd (snd (fst (Default_settle r s t D own))) = t @ interleave (fst D) own"
  by (simp add: Default_settle_def)

lemma Default_connect_cases:
  "Default_connect newWs hooks ticks s u =
     (case thrown hooks ''onBeforeConnect'' [Str u] of
        Some e \<Rightarrow>
          ((raised hooks ''onConnectError'' (Some e), s,
            called hooks ''onBeforeConnect'' [Str u] @ called hooks ''onConnectError'' [e]),
           (s, []))
      | None \<Rightarrow>
          let t = called hooks ''onBeforeConnect'' [Str u]
                  @ (if ws s \<noteq> None then called hooks ''onBeforeDisconnect'' [] else [])
                  @ [WsNew u]
          in case newWs u of
               Some e \<Rightarrow>
                 Default_settle (raised hooks ''onConnectError'' (Some e)) (s\<lparr>url := u\<rparr>)
                   (t @ called hooks ''onConnectError'' [e])
                   (Default_detached hooks ticks (ws s \<noteq> None) (s\<lparr>url := u\<rparr>))
                   (idle (turns hooks ticks ''onConnectError'' [e]) @ [Nil])
             | None \<Rightarrow>
                 (case thrown hooks ''onAfterConnect'' [Str u] of
                    Some e \<Rightarrow>
                      Default_settle (raised hooks ''onConnectError'' (Some e))
                        (s\<lparr>url := u, ws := Some u\<rparr>) t
                        (Default_detached hooks ticks (ws s \<noteq> None) (s\<lparr>url := u, ws := Some u\<rparr>))
                        ([called hooks ''onAfterConnect'' [Str u]]
                           @ idle (turns hooks ticks ''onAfterConnect'' [Str u])
                           @ [called hooks ''onConnectError'' [e]]
                           @ idle (turns hooks ticks ''onConnectError'' [e]) @ [Nil])
                  | None \<Rightarrow>
                      Default_settle (Inr ()) (s\<lparr>url := u, ws := Some u\<rparr>) t
                        (Default_detached hooks ticks (ws s \<noteq> None) (s\<lparr>url := u, ws := Some u\<rparr>))
                        ([called hooks ''onAfterConnect'' [Str u]]
                           @ idle (turns hooks ticks ''onAfterConnect'' [Str u]) @ [Nil])))"
proof (cases "thrown hooks ''onBeforeConnect'' [Str u]")
  case (Some e)
  then show ?thesis
    by (simp add: Default_connect_def callHook_eq catchError_eq)
next
  case None
  note b = this
  show ?thesis
  proof (cases "newWs u")
    case (Some e)
    then show ?thesis using b
      by (simp add: Default_connect_def Default_disconnect_begin_def callHook_eq catchError_eq
            Let_def)
  next
    case None
    note w = this
    show ?thesis
    proof (cases "thrown hooks ''onAfterConnect'' [Str u]")
      case (Some e)
      then show ?thesis using b w
        by (simp add: Default_connect_def Default_disconnect_begin_def callHook_eq
              catchError_eq Let_def)
    next
      case None
      then show ?thesis using b w
        by (simp add: Default_connect_def Default_disconnect_begin_def callHook_eq
              catchError_eq Let_def)
    qed
  qed
qed


lemma in_interleave_detached:
  assumes "n \<noteq> ''onAfterDisconnect''" and "n \<noteq> ''onDisconnectError''"
  shows "(HookCall n a \<in> set (interleave (fst (Default_detached hooks ticks b s)) cs))
           = (HookCall n a \<in> set (concat cs))"
proof -
  have "HookCall n a \<notin> set (concat (take (length cs) (fst (Default_detached hooks ticks b s))))"
    using detached_hooks [of n a "length cs" hooks ticks b s] assms by blast
  then show ?thesis
    unfolding set_interleave by blast
qed

lemma called_sub_interleave:
  assumes "set c \<subseteq> set (concat cs)"
  shows "set c \<subseteq> set (t @ interleave ds cs)"
  using assms unfolding set_append set_interleave by blast

lemma Default_connect_contract:
  "hookContract hooks ''onBeforeConnect'' ''onAfterConnect'' ''onConnectError'' [Str u] (newWs u) s
     (fst (Default_connect newWs hooks ticks s u))"
proof (cases "thrown hooks ''onBeforeConnect'' [Str u]")
  case (Some e)
  then show ?thesis
    by (auto simp: hookContract_def Default_connect_cases Let_def)
next
  case None
  note b = this
  show ?thesis
  proof (cases "newWs u")
    case (Some e)
    then show ?thesis using b
      by (auto simp: hookContract_def Default_connect_cases Let_def settle_result settle_trace
               in_interleave_detached)
  next
    case None
    note w = this
    show ?thesis
    proof (cases "thrown hooks ''onAfterConnect'' [Str u]")
      case (Some e)
      have "set (called hooks ''onConnectError'' [e])
              \<subseteq> set (interleave
                        (fst (Default_detached hooks ticks (ws s \<noteq> None) (s\<lparr>url := u, ws := Some u\<rparr>)))
                        ([called hooks ''onAfterConnect'' [Str u]]
                           @ idle (turns hooks ticks ''onAfterConnect'' [Str u])
                           @ [called hooks ''onConnectError'' [e]]
                           @ idle (turns hooks ticks ''onConnectError'' [e]) @ [Nil]))"
        unfolding set_interleave by auto
      then show ?thesis using b w Some
        by (auto simp: hookContract_def Default_connect_cases Let_def settle_result settle_trace
                 in_interleave_detached)
    next
      case None
      then show ?thesis using b w
        by (auto simp: hookContract_def Default_connect_cases Let_def settle_result settle_trace
                 in_interleave_detached raised_def)
    qed
  qed
qed

lemma Default_disconnect_eq:
  "Default_disconnect hooks s =
     (let f = firstFailure [thrown hooks ''onBeforeDisconnect'' [], None,
                            thrown hooks ''onAfterDisconnect'' []];
          c = (case f of None \<Rightarrow> [] | Some e \<Rightarrow> called hooks ''onDisconnectError'' [e])
      in if thrown hooks ''onBeforeDisconnect'' [] \<noteq> None
         then (raised hooks ''onDisconnectError'' f, s, called hooks ''onBeforeDisconnect'' [] @ c)
         else (raised hooks ''onDisconnectError'' f,
               (case ws s of Some w \<Rightarrow> s\<lparr>ws := None\<rparr> | None \<Rightarrow> s)\<lparr>connected := False\<rparr>,
               called hooks ''onBeforeDisconnect'' []
                 @ (case ws s of Some w \<Rightarrow> [WsDisconnect w] | None \<Rightarrow> [])
                 @ called hooks ''onAfterDisconnect'' [] @ c))"
  by (simp add: Default_disconnect_def Default_disconnect_begin_def Default_disconnect_resume_def
        callHook_eq catchError_eq Let_def raised_def split: option.splits)

lemma Echo_connect_eq:
  "Echo_connect hooks s u =
     (let f = firstFailure [thrown hooks ''onBeforeConnect'' [Str u], None,
                            thrown hooks ''onAfterConnect'' [Str u]];
          c = (case f of None \<Rightarrow> [] | Some e \<Rightarrow> called hooks ''onConnectError'' [e])
      in if thrown hooks ''onBeforeConnect'' [Str u] \<noteq> None
         then (raised hooks ''onConnectError'' f, s, called hooks ''onBeforeConnect'' [Str u] @ c)
         else (raised hooks ''onConnectError'' f, s\<lparr>shouldConnect := True, connected := True\<rparr>,
               called hooks ''onBeforeConnect'' [Str u] @ [EmitLater ''connect'' []]
                 @ called hooks ''onAfterConnect'' [Str u] @ c))"
  by (simp add: Echo_connect_def callHook_eq catchError_eq Let_def raised_def split: option.splits)

lemma Echo_disconnect_eq:
  "Echo_disconnect hooks s =
     (let f = firstFailure [thrown hooks ''onBeforeDisconnect'' [], None,
                            thrown hooks ''onAfterDisconnect'' []];
          c = (case f of None \<Rightarrow> [] | Some e \<Rightarrow> called hooks ''onDisconnectError'' [e])
      in if thrown hooks ''onBeforeDisconnect'' [] \<noteq> None
         then (raised hooks ''onDisconnectError'' f, s, called hooks ''onBeforeDisconnect'' [] @ c)
         else (raised hooks ''onDisconnectError'' f,
               s\<lparr>shouldConnect := False, connected := False, channels := [],
                 readyChannels := {}, messageQueue := []\<rparr>,
               called hooks ''onBeforeDisconnect'' []
                 @ map (\<lambda>(topic, channel). EchoLeave (getChannelName topic)) (channels s)
                 @ [Emit ''disconnect'' []]
                 @ called hooks ''onAfterDisconnect'' [] @ c))"
  by (simp add: Echo_disconnect_def Echo_disconnect_begin_def Echo_disconnect_resume_def
        callHook_eq catchError_eq Let_def raised_def split: option.splits)

lemma isBackend_leave [simp]:
  "HookCall n args \<notin> set (map (\<lambda>(topic, channel). EchoLeave (getChannelName topic)) cs)"
  by (induction cs) auto

lemma Default_disconnect_contract:
  "hookContract hooks ''onBeforeDisconnect'' ''onAfterDisconnect'' ''onDisconnectError'' [] None s
     (Default_disconnect hooks s)"
proof (cases "thrown hooks ''onBeforeDisconnect'' []")
  case (Some e)
  then show ?thesis
    by (auto simp: hookContract_def Default_disconnect_eq Let_def)
next
  case None
  then show ?thesis
    by (cases "thrown hooks ''onAfterDisconnect'' []"; cases "ws s")
       (auto simp: hookContract_def Default_disconnect_eq Let_def raised_def)
qed

lemma Echo_connect_contract:
  "hookContract hooks ''onBeforeConnect'' ''onAfterConnect'' ''onConnectError'' [Str u] None s
     (Echo_connect hooks s u)"
proof (cases "thrown hooks ''onBeforeConnect'' [Str u]")
  case (Some e)
  then show ?thesis
    by (auto simp: hookContract_def Echo_connect_eq Let_def)
next
  case None
  then show ?thesis
    by (cases "thrown hooks ''onAfterConnect'' [Str u]")
       (auto simp: hookContract_def Echo_connect_eq Let_def raised_def)
qed

lemma Echo_disconnect_contract:
  "hookContract hooks ''onBeforeDisconnect'' ''onAfterDisconnect'' ''onDisconnectError'' [] None s
     (Echo_disconnect hooks s)"
proof (cases "thrown hooks ''onBeforeDisconnect'' []")
  case (Some e)
  then show ?thesis
    by (auto simp: hookContract_def Echo_disconnect_eq Let_def)
next
  case None
  then show ?thesis
    by (cases "thrown hooks ''onAfterDisconnect'' []")
       (auto simp: hookContract_def Echo_disconnect_eq Let_def raised_def)
qed

text \<open>
  Claim C3 (hook and error contract), as it holds, for \<open>connect\<close> and \<open>disconnect\<close> of both
  adapters, every hook table and every number of turns the hooks take: the \<open>onBeforeX\<close>
  hook runs first, before any effect (if it throws, the adapter is unchanged and nothing
  was sent); the \<open>onAfterX\<close> hook runs only if neither the before hook nor the effect
  failed; when the operation fails, the \<open>onXError\<close> hook runs with the original failure,
  it runs in no other case, and the caller gets an error: the original failure if the
  \<open>onXError\<close> hook returns, the failure of the \<open>onXError\<close> hook if that hook throws. Without a
  failure the operation returns normally.
\<close>

theorem C3_hook_contract:
  "hookContract hooks ''onBeforeConnect'' ''onAfterConnect'' ''onConnectError'' [Str u] (newWs u) d
     (fst (Default_connect newWs hooks ticks d u))
   \<and> hookContract hooks ''onBeforeDisconnect'' ''onAfterDisconnect'' ''onDisconnectError'' [] None d
       (Default_disconnect hooks d)
   \<and> hookContract hooks ''onBeforeConnect'' ''onAfterConnect'' ''onConnectError'' [Str u] None e
       (Echo_connect hooks e u)
   \<and> hookContract hooks ''onBeforeDisconnect'' ''onAfterDisconnect'' ''onDisconnectError'' [] None e
       (Echo_disconnect hooks e)"
  by (simp add: Default_connect_contract Default_disconnect_contract Echo_connect_contract
        Echo_disconnect_contract)

text \<open>
  A connect whose websocket constructor throws and one that succeeds, under hooks that
  only observe, and a connect of an adapter that has a websocket: the \<open>disconnect\<close> it
  starts closes the new client before \<open>connect\<close> returns.
\<close>

theorem C3_hook_contract_witness:
  "Default_connect badUrl observingHooks noTicks Default_init ''nowhere'' =
     ((Inl (Error ''invalid url''), Default_init\<lparr>url := ''nowhere''\<rparr>,
       [HookCall ''onBeforeConnect'' [Str ''nowhere''], WsNew ''nowhere'',
        HookCall ''onConnectError'' [Error ''invalid url'']]),
      (Default_init\<lparr>url := ''nowhere''\<rparr>, []))
   \<and> Default_connect noWsError observingHooks noTicks Default_init ''wss://signal'' =
     ((Inr (), Default_init\<lparr>url := ''wss://signal'', ws := Some ''wss://signal''\<rparr>,
       [HookCall ''onBeforeConnect'' [Str ''wss://signal''], WsNew ''wss://signal'',
        HookCall ''onAfterConnect'' [Str ''wss://signal'']]),
      (Default_init\<lparr>url := ''wss://signal'', ws := Some ''wss://signal''\<rparr>, []))
   \<and> Default_connect noWsError noHooks noTicks connectedAdapter ''wss://other'' =
     ((Inr (), \<lparr>connected = False, ws = None, url = ''wss://other''\<rparr>,
       [WsNew ''wss://other'', WsDisconnect ''wss://other'']),
      (\<lparr>connected = False, ws = None, url = ''wss://other''\<rparr>, []))
   \<and> hookContract observingHooks ''onBeforeConnect'' ''onAfterConnect'' ''onConnectError''
        [Str ''nowhere''] (badUrl ''nowhere'') Default_init
        (fst (Default_connect badUrl observingHooks noTicks Default_init ''nowhere''))"
  using C3_hook_contract [of observingHooks "''nowhere''" badUrl Default_init noTicks]
  by (simp add: Default_connect_def Default_settle_def Default_detached_def
        Default_disconnect_turns_def Default_disconnect_begin_def Default_teardown_def turns_def
        idle_def noTicks_def Default_init_def connectedAdapter_def badUrl_def noWsError_def
        observingHooks_def noHooks_def callHook_def catchError_def alwaysReturns_def Let_def)

text \<open>
  Claim C3 as stated, the original failure always re-raised, fails when the error hook
  throws: \<open>onBeforeConnect\<close> throws \<open>first\<close>, \<open>onConnectError\<close> throws \<open>second\<close>, and the
  caller gets \<open>second\<close>.
\<close>

theorem C3_error_hook_counterexample:
  "thrown throwingErrorHooks ''onBeforeConnect'' [Str ''wss://signal''] = Some (Str ''first'')
   \<and> fst (fst (Default_connect noWsError throwingErrorHooks noTicks Default_init ''wss://signal''))
       = Inl (Str ''second'')
   \<and> fst (Echo_connect throwingErrorHooks (Echo_init (Obj [])) ''wss://signal'')
       = Inl (Str ''second'')"
  by (simp add: Default_connect_def Echo_connect_def throwingErrorHooks_def thrown_def
        callHook_def catchError_def alwaysThrows_def)

lemma firstFailure_single [simp]: "firstFailure [x] = x"
  by (cases x) simp_all

lemma settled_callHook:
  "settled (fst (callHook hooks n args)) = failed (thrown hooks n args)"
  by (simp add: callHook_eq settled_def failed_def split: option.splits)

lemma Default_destroy_state:
  "fst (snd (fst (Default_destroy hooks s))) = fst (snd (Default_disconnect hooks s))"
  by (simp add: Default_destroy_def Default_disconnect_def split: prod.splits)

lemma Echo_destroy_state:
  "fst (snd (fst (Echo_destroy hooks s))) = fst (snd (Echo_disconnect hooks s))"
  by (simp add: Echo_destroy_def Echo_disconnect_def split: prod.splits)

lemma Default_destroy_result:
  "fst (fst (Default_destroy hooks s)) = Inr ()
   \<and> snd (Default_destroy hooks s) = fst (Default_disconnect hooks s)"
  by (simp add: Default_destroy_def Default_disconnect_def split: prod.splits)

lemma Echo_destroy_result:
  "fst (fst (Echo_destroy hooks s)) = Inr ()
   \<and> snd (Echo_destroy hooks s) = fst (Echo_disconnect hooks s)"
  by (simp add: Echo_destroy_def Echo_disconnect_def split: prod.splits)

lemma Default_disconnect_state:
  "fst (snd (Default_disconnect hooks s)) =
     (if thrown hooks ''onBeforeDisconnect'' [] = None then Default_teardown s else s)"
  by (simp add: Default_disconnect_eq Default_teardown_def Let_def)

lemma Default_teardown_twice: "Default_teardown (Default_teardown s) = Default_teardown s"
  by (simp add: Default_teardown_def split: option.splits)

lemma Echo_disconnect_state:
  "fst (snd (Echo_disconnect hooks s)) =
     (if thrown hooks ''onBeforeDisconnect'' [] = None
      then s\<lparr>shouldConnect := False, connected := False, channels := [],
             readyChannels := {}, messageQueue := []\<rparr>
      else s)"
  by (simp add: Echo_disconnect_eq Let_def)

lemma Default_disconnect_again:
  assumes "thrown hooks1 ''onBeforeDisconnect'' [] = None
           \<or> thrown hooks2 ''onBeforeDisconnect'' [] \<noteq> None"
  shows "fst (snd (Default_disconnect hooks2 (fst (snd (Default_disconnect hooks1 s)))))
           = fst (snd (Default_disconnect hooks1 s))"
  using assms by (auto simp: Default_disconnect_state Default_teardown_twice)

lemma Echo_disconnect_again:
  assumes "thrown hooks1 ''onBeforeDisconnect'' [] = None
           \<or> thrown hooks2 ''onBeforeDisconnect'' [] \<noteq> None"
  shows "fst (snd (Echo_disconnect hooks2 (fst (snd (Echo_disconnect hooks1 s)))))
           = fst (snd (Echo_disconnect hooks1 s))"
  using assms by (auto simp: Echo_disconnect_state)

lemma Default_disconnect_result:
  "fst (Default_disconnect hooks s) =
     raised hooks ''onDisconnectError''
       (firstFailure [thrown hooks ''onBeforeDisconnect'' [], None,
                      thrown hooks ''onAfterDisconnect'' []])"
  by (simp add: Default_disconnect_eq Let_def)

lemma Echo_disconnect_result:
  "fst (Echo_disconnect hooks s) =
     raised hooks ''onDisconnectError''
       (firstFailure [thrown hooks ''onBeforeDisconnect'' [], None,
                      thrown hooks ''onAfterDisconnect'' []])"
  by (simp add: Echo_disconnect_eq Let_def)

lemma raised_Inr:
  "(raised hooks n f = Inr ()) = (f = None)"
  by (simp add: raised_def split: option.splits)

lemma firstFailure_None:
  "(firstFailure [a, None, b] = None) = (a = None \<and> b = None)"
  by (cases a; cases b) simp_all

lemma Default_disconnect_ok:
  "(fst (Default_disconnect hooks s) = Inr ())
     = (thrown hooks ''onBeforeDisconnect'' [] = None \<and> thrown hooks ''onAfterDisconnect'' [] = None)"
  by (simp only: Default_disconnect_result raised_Inr firstFailure_None)

lemma Echo_disconnect_ok:
  "(fst (Echo_disconnect hooks s) = Inr ())
     = (thrown hooks ''onBeforeDisconnect'' [] = None \<and> thrown hooks ''onAfterDisconnect'' [] = None)"
  by (simp only: Echo_disconnect_result raised_Inr firstFailure_None)

text \<open>
  Claim C8 (idempotent teardown), as it holds, for both adapters in every state. The
  first call meets the hooks \<open>hooks1\<close>, the second \<open>hooks2\<close>. When \<open>onBeforeDisconnect\<close> did
  not throw in the first call, or throws in the second one too, the second \<open>disconnect\<close>
  leaves the adapter as the first one left it; \<open>destroy\<close> leaves the adapter as its
  \<open>disconnect\<close> does, so the same holds for \<open>destroy\<close>. In every state, a \<open>disconnect\<close>
  settles by what its hooks do in that call: without an error exactly when neither
  \<open>onBeforeDisconnect\<close> nor \<open>onAfterDisconnect\<close> throws, otherwise with the failure of the
  hook (or of \<open>onDisconnectError\<close>, if that throws). \<open>destroy\<close> returns normally whatever
  the hooks do; the promise of the \<open>disconnect\<close> it starts, which may be rejected, is
  dropped.
\<close>

theorem C8_idempotent_teardown:
  "(thrown hooks1 ''onBeforeDisconnect'' [] = None \<or> thrown hooks2 ''onBeforeDisconnect'' [] \<noteq> None
      \<longrightarrow> fst (snd (Default_disconnect hooks2 (fst (snd (Default_disconnect hooks1 d)))))
            = fst (snd (Default_disconnect hooks1 d))
        \<and> fst (snd (fst (Default_destroy hooks2 (fst (snd (fst (Default_destroy hooks1 d)))))))
            = fst (snd (fst (Default_destroy hooks1 d)))
        \<and> fst (snd (Echo_disconnect hooks2 (fst (snd (Echo_disconnect hooks1 e)))))
            = fst (snd (Echo_disconnect hooks1 e))
        \<and> fst (snd (fst (Echo_destroy hooks2 (fst (snd (fst (Echo_destroy hooks1 e)))))))
            = fst (snd (fst (Echo_destroy hooks1 e))))
   \<and> fst (snd (fst (Default_destroy hooks d))) = fst (snd (Default_disconnect hooks d))
   \<and> fst (snd (fst (Echo_destroy hooks e))) = fst (snd (Echo_disconnect hooks e))
   \<and> fst (Default_disconnect hooks d)
       = raised hooks ''onDisconnectError''
           (firstFailure [thrown hooks ''onBeforeDisconnect'' [], None,
                          thrown hooks ''onAfterDisconnect'' []])
   \<and> fst (Echo_disconnect hooks e)
       = raised hooks ''onDisconnectError''
           (firstFailure [thrown hooks ''onBeforeDisconnect'' [], None,
                          thrown hooks ''onAfterDisconnect'' []])
   \<and> ((fst (Default_disconnect hooks d) = Inr ())
        = (thrown hooks ''onBeforeDisconnect'' [] = None \<and> thrown hooks ''onAfterDisconnect'' [] = None))
   \<and> ((fst (Echo_disconnect hooks e) = Inr ())
        = (thrown hooks ''onBeforeDisconnect'' [] = None \<and> thrown hooks ''onAfterDisconnect'' [] = None))
   \<and> fst (fst (Default_destroy hooks d)) = Inr ()
   \<and> snd (Default_destroy hooks d) = fst (Default_disconnect hooks d)
   \<and> fst (fst (Echo_destroy hooks e)) = Inr ()
   \<and> snd (Echo_destroy hooks e) = fst (Echo_disconnect hooks e)"
proof -
  have again: "thrown hooks1 ''onBeforeDisconnect'' [] = None
                 \<or> thrown hooks2 ''onBeforeDisconnect'' [] \<noteq> None
      \<Longrightarrow> fst (snd (Default_disconnect hooks2 (fst (snd (Default_disconnect hooks1 d)))))
            = fst (snd (Default_disconnect hooks1 d))
        \<and> fst (snd (Echo_disconnect hooks2 (fst (snd (Echo_disconnect hooks1 e)))))
            = fst (snd (Echo_disconnect hooks1 e))"
    by (simp add: Default_disconnect_again Echo_disconnect_again)
  have ok: "(fst (Default_disconnect hooks d) = Inr ())
        = (thrown hooks ''onBeforeDisconnect'' [] = None \<and> thrown hooks ''onAfterDisconnect'' [] = None)"
      "(fst (Echo_disconnect hooks e) = Inr ())
        = (thrown hooks ''onBeforeDisconnect'' [] = None \<and> thrown hooks ''onAfterDisconnect'' [] = None)"
    by (rule Default_disconnect_ok, rule Echo_disconnect_ok)
  show ?thesis
    using again ok
    by (simp only: Default_destroy_state Echo_destroy_state Default_destroy_result
          Echo_destroy_result Default_disconnect_result Echo_disconnect_result simp_thms)
       blast
qed

text \<open>
  Two \<open>disconnect\<close>s of a connected adapter without hooks, and a second \<open>disconnect\<close> whose
  \<open>onBeforeDisconnect\<close> hook throws, after a first one that tore the adapter down.
\<close>

theorem C8_idempotent_teardown_witness:
  "thrown noHooks ''onBeforeDisconnect'' [] = None
   \<and> fst (snd (Default_disconnect noHooks connectedAdapter)) = Default_init\<lparr>url := ''wss://signal''\<rparr>
   \<and> fst (snd (Default_disconnect throwingBeforeHooks
                 (fst (snd (Default_disconnect noHooks connectedAdapter)))))
       = Default_init\<lparr>url := ''wss://signal''\<rparr>
   \<and> fst (Default_disconnect noHooks (fst (snd (Default_disconnect noHooks connectedAdapter)))) = Inr ()
   \<and> fst (snd (Echo_disconnect noHooks subscribedAdapter)) = Echo_init (Obj [])
   \<and> fst (snd (Echo_disconnect throwingBeforeHooks (fst (snd (Echo_disconnect noHooks subscribedAdapter)))))
       = Echo_init (Obj [])
   \<and> Default_destroy throwingBeforeHooks connectedAdapter
       = ((Inr (), connectedAdapter, [HookCall ''onBeforeDisconnect'' [], ObservableDestroy]),
          Inl (Str ''boom''))"
  using C8_idempotent_teardown
          [where ?hooks1.0 = noHooks and ?hooks2.0 = throwingBeforeHooks and d = connectedAdapter
             and e = subscribedAdapter and hooks = noHooks]
  by (simp add: Default_disconnect_eq Echo_disconnect_eq Default_destroy_def
        Default_disconnect_begin_def Default_disconnect_resume_def callHook_def catchError_def
        noHooks_def throwingBeforeHooks_def alwaysThrows_def thrown_def called_def
        raised_def connectedAdapter_def subscribedAdapter_def Default_init_def Echo_init_def)

text \<open>
  Claim C8 as stated fails under an \<open>onBeforeDisconnect\<close> hook that throws. When the hook
  throws in both calls, the second \<open>disconnect\<close> is rejected as the first one was. When it
  throws in the first call only, the first call leaves the adapter connected and the
  second one tears it down: the state after the second call is not the state after the
  first.
\<close>

theorem C8_second_call_counterexample:
  "fst (Default_disconnect throwingBeforeHooks
          (fst (snd (Default_disconnect throwingBeforeHooks connectedAdapter))))
     = Inl (Str ''boom'')
   \<and> fst (Echo_disconnect throwingBeforeHooks
          (fst (snd (Echo_disconnect throwingBeforeHooks subscribedAdapter))))
     = Inl (Str ''boom'')
   \<and> fst (snd (Default_disconnect throwingBeforeHooks connectedAdapter)) = connectedAdapter
   \<and> fst (snd (Default_disconnect noHooks
                 (fst (snd (Default_disconnect throwingBeforeHooks connectedAdapter)))))
       = connectedAdapter\<lparr>connected := False, ws := None\<rparr>
   \<and> connectedAdapter\<lparr>connected := False, ws := None\<rparr> \<noteq> connectedAdapter
   \<and> fst (snd (Echo_disconnect throwingBeforeHooks subscribedAdapter)) = subscribedAdapter
   \<and> fst (snd (Echo_disconnect noHooks
                 (fst (snd (Echo_disconnect throwingBeforeHooks subscribedAdapter)))))
       = Echo_init (Obj [])
   \<and> Echo_init (Obj []) \<noteq> subscribedAdapter"
  by (simp add: Default_disconnect_eq Echo_disconnect_eq throwingBeforeHooks_def noHooks_def
        thrown_def called_def raised_def alwaysThrows_def connectedAdapter_def
        subscribedAdapter_def Echo_init_def)

lemma Default_subscribe_eq:
  "Default_subscribe hooks s topics =
     (failed (firstFailure [thrown hooks ''onBeforeSubscribe'' [Arr (map Str topics)],
                            thrown hooks ''onAfterSubscribe'' [Arr (map Str topics)]]),
      s,
      called hooks ''onBeforeSubscribe'' [Arr (map Str topics)]
        @ (if thrown hooks ''onBeforeSubscribe'' [Arr (map Str topics)] = None
           then sendIfConnected s
                  (Obj [(''type'', Str ''subscribe''), (''topics'', Arr (map Str topics))])
                @ called hooks ''onAfterSubscribe'' [Arr (map Str topics)]
           else []))"
  by (simp add: Default_subscribe_def callHook_eq settled_def failed_def Let_def
           split: option.splits)

lemma Default_unsubscribe_eq:
  "Default_unsubscribe hooks s topics =
     (failed (firstFailure [thrown hooks ''onBeforeUnsubscribe'' [Arr (map Str topics)],
                            thrown hooks ''onAfterUnsubscribe'' [Arr (map Str topics)]]),
      s,
      called hooks ''onBeforeUnsubscribe'' [Arr (map Str topics)]
        @ (if thrown hooks ''onBeforeUnsubscribe'' [Arr (map Str topics)] = None
           then sendIfConnected s
                  (Obj [(''type'', Str ''unsubscribe''), (''topics'', Arr (map Str topics))])
                @ called hooks ''onAfterUnsubscribe'' [Arr (map Str topics)]
           else []))"
  by (simp add: Default_unsubscribe_def callHook_eq settled_def failed_def Let_def
           split: option.splits)

lemma Default_publish_eq:
  "Default_publish hooks s topic data =
     (case substitute (returned hooks ''onBeforePublish'' [topic, data]) topic data of
        (topic', data') \<Rightarrow>
          (failed (firstFailure [thrown hooks ''onBeforePublish'' [topic, data],
                                 thrown hooks ''onAfterPublish'' [topic', data']]),
           s,
           called hooks ''onBeforePublish'' [topic, data]
             @ (if thrown hooks ''onBeforePublish'' [topic, data] = None
                then sendIfConnected s
                       (Obj [(''type'', Str ''publish''), (''topic'', topic'), (''data'', data')])
                     @ called hooks ''onAfterPublish'' [topic', data']
                else [])))"
  by (simp add: Default_publish_def callHook_eq settled_def failed_def Let_def
           split: option.splits prod.splits)

lemma Echo_publish_eq:
  "Echo_publish hooks s topic data =
     (case substitute (returned hooks ''onBeforePublish'' [topic, data]) topic data of
        (topic', data') \<Rightarrow>
          (failed (firstFailure [thrown hooks ''onBeforePublish'' [topic, data],
                                 thrown hooks ''onAfterPublish'' [topic', data']]),
           (if thrown hooks ''onBeforePublish'' [topic, data] = None
            then fst (Echo_doPublish s topic' data') else s),
           called hooks ''onBeforePublish'' [topic, data]
             @ (if thrown hooks ''onBeforePublish'' [topic, data] = None
                then snd (Echo_doPublish s topic' data')
                     @ called hooks ''onAfterPublish'' [topic', data']
                else [])))"
  by (simp add: Echo_publish_def callHook_eq settled_def failed_def Let_def
           split: option.splits prod.splits)

lemma sendIfConnected_off: "ws s = None \<or> \<not> connected s \<Longrightarrow> sendIfConnected s m = []"
  by (auto simp: sendIfConnected_def split: option.splits)

text \<open>
  Claim C5 (direct adapter, disconnected), as it holds: for every
  \<open>DefaultSignalingAdapter\<close> whose websocket is absent or whose \<open>connected\<close> is false, and
  every hook table, \<open>subscribe\<close>, \<open>unsubscribe\<close> and \<open>publish\<close> leave the adapter unchanged
  (it has no queue) and send nothing to the backend; the only events are the calls of the
  hooks. An error is raised exactly when one of the two hooks of the operation throws,
  and it is that hook's error.
\<close>

theorem C5_disconnected_noop:
  assumes "ws s = None \<or> \<not> connected s"
  shows
  "fst (snd (Default_subscribe hooks s topics)) = s
   \<and> filter isBackend (snd (snd (Default_subscribe hooks s topics))) = []
   \<and> fst (Default_subscribe hooks s topics) =
       failed (firstFailure [thrown hooks ''onBeforeSubscribe'' [Arr (map Str topics)],
                             thrown hooks ''onAfterSubscribe'' [Arr (map Str topics)]])
   \<and> fst (snd (Default_unsubscribe hooks s topics)) = s
   \<and> filter isBackend (snd (snd (Default_unsubscribe hooks s topics))) = []
   \<and> fst (Default_unsubscribe hooks s topics) =
       failed (firstFailure [thrown hooks ''onBeforeUnsubscribe'' [Arr (map Str topics)],
                             thrown hooks ''onAfterUnsubscribe'' [Arr (map Str topics)]])
   \<and> fst (snd (Default_publish hooks s topic data)) = s
   \<and> filter isBackend (snd (snd (Default_publish hooks s topic data))) = []
   \<and> fst (Default_publish hooks s topic data) =
       failed (firstFailure
         [thrown hooks ''onBeforePublish'' [topic, data],
          thrown hooks ''onAfterPublish''
            [fst (substitute (returned hooks ''onBeforePublish'' [topic, data]) topic data),
             snd (substitute (returned hooks ''onBeforePublish'' [topic, data]) topic data)]])"
  using sendIfConnected_off [OF assms]
  by (simp add: Default_subscribe_eq Default_unsubscribe_eq Default_publish_eq
        split: prod.splits)

theorem C5_disconnected_noop_witness:
  "(ws Default_init = None \<or> \<not> connected Default_init)
   \<and> Default_subscribe noHooks Default_init [''room''] = (Inr (), Default_init, [])
   \<and> Default_unsubscribe noHooks Default_init [''room''] = (Inr (), Default_init, [])
   \<and> Default_publish noHooks Default_init (Str ''room'') (Num 1) = (Inr (), Default_init, [])"
  using C5_disconnected_noop [of Default_init noHooks "[''room'']" "Str ''room''" "Num 1"]
  by (simp add: Default_subscribe_eq Default_unsubscribe_eq Default_publish_eq noHooks_def
        thrown_def called_def returned_def failed_def substitute_def sendIfConnected_def
        Default_init_def)

text \<open>
  Claim C5 as stated, no error raised, fails under an \<open>onBeforeSubscribe\<close> hook that
  throws: \<open>subscribe\<close> on a fresh, disconnected adapter is rejected.
\<close>

theorem C5_hook_error_counterexample:
  "(ws Default_init = None \<or> \<not> connected Default_init)
   \<and> fst (Default_subscribe throwingBeforeHooks Default_init [''room'']) = Inl (Str ''boom'')"
  by (simp add: Default_subscribe_eq throwingBeforeHooks_def thrown_def failed_def
        alwaysThrows_def Default_init_def)

lemma hook_returns:
  assumes "hooks n = Some h" and "h args = Returns r"
  shows "thrown hooks n args = None" and "returned hooks n args = r"
    and "called hooks n args = [HookCall n args]"
  using assms by (simp_all add: thrown_def returned_def called_def)

lemma substitute_both:
  "map_of ps ''topic'' = Some t' \<Longrightarrow> map_of ps ''data'' = Some d' \<Longrightarrow>
   substitute (Obj ps) topic data = (t', d')"
  by (simp add: substitute_def)

lemma substitute_other:
  "(\<forall>ps. r = Obj ps \<longrightarrow> map_of ps ''topic'' = None \<or> map_of ps ''data'' = None) \<Longrightarrow>
   substitute r topic data = (topic, data)"
  by (cases r) (auto simp: substitute_def)

text \<open>
  Claim C4 (substitution by \<open>onBeforePublish\<close>), for \<open>publish(topic, data)\<close> on both
  adapters when the hook returns \<open>r\<close>. If \<open>r\<close> is an object with a \<open>topic\<close> property \<open>t'\<close> and a
  \<open>data\<close> property \<open>d'\<close>, the effect (the \<open>publish\<close> message sent by the default adapter,
  \<open>_doPublish\<close> of the Echo adapter) and the \<open>onAfterPublish\<close> hook get \<open>(t', d')\<close>. If \<open>r\<close> is
  anything else, they get the original \<open>(topic, data)\<close>.
\<close>

theorem C4_before_publish_substitution:
  assumes "hooks ''onBeforePublish'' = Some h" and "h [topic, data] = Returns r"
  shows
  "(r = Obj ps \<and> map_of ps ''topic'' = Some t' \<and> map_of ps ''data'' = Some d' \<longrightarrow>
      Default_publish hooks d topic data =
        (failed (thrown hooks ''onAfterPublish'' [t', d']), d,
         HookCall ''onBeforePublish'' [topic, data]
           # sendIfConnected d (Obj [(''type'', Str ''publish''), (''topic'', t'), (''data'', d')])
           @ called hooks ''onAfterPublish'' [t', d'])
      \<and> Echo_publish hooks e topic data =
        (failed (thrown hooks ''onAfterPublish'' [t', d']), fst (Echo_doPublish e t' d'),
         HookCall ''onBeforePublish'' [topic, data]
           # snd (Echo_doPublish e t' d') @ called hooks ''onAfterPublish'' [t', d']))
   \<and> ((\<forall>qs. r = Obj qs \<longrightarrow> map_of qs ''topic'' = None \<or> map_of qs ''data'' = None) \<longrightarrow>
      Default_publish hooks d topic data =
        (failed (thrown hooks ''onAfterPublish'' [topic, data]), d,
         HookCall ''onBeforePublish'' [topic, data]
           # sendIfConnected d
               (Obj [(''type'', Str ''publish''), (''topic'', topic), (''data'', data)])
           @ called hooks ''onAfterPublish'' [topic, data])
      \<and> Echo_publish hooks e topic data =
        (failed (thrown hooks ''onAfterPublish'' [topic, data]), fst (Echo_doPublish e topic data),
         HookCall ''onBeforePublish'' [topic, data]
           # snd (Echo_doPublish e topic data) @ called hooks ''onAfterPublish'' [topic, data]))"
proof (intro conjI impI)
  have hr: "thrown hooks ''onBeforePublish'' [topic, data] = None"
    "returned hooks ''onBeforePublish'' [topic, data] = r"
    "called hooks ''onBeforePublish'' [topic, data] = [HookCall ''onBeforePublish'' [topic, data]]"
    using assms by (simp_all add: hook_returns)
  {
    assume a: "r = Obj ps \<and> map_of ps ''topic'' = Some t' \<and> map_of ps ''data'' = Some d'"
    then have sub: "substitute r topic data = (t', d')" by (simp add: substitute_both)
    show "Default_publish hooks d topic data =
        (failed (thrown hooks ''onAfterPublish'' [t', d']), d,
         HookCall ''onBeforePublish'' [topic, data]
           # sendIfConnected d (Obj [(''type'', Str ''publish''), (''topic'', t'), (''data'', d')])
           @ called hooks ''onAfterPublish'' [t', d'])"
      using hr sub by (simp add: Default_publish_eq)
    show "Echo_publish hooks e topic data =
        (failed (thrown hooks ''onAfterPublish'' [t', d']), fst (Echo_doPublish e t' d'),
         HookCall ''onBeforePublish'' [topic, data]
           # snd (Echo_doPublish e t' d') @ called hooks ''onAfterPublish'' [t', d'])"
      using hr sub by (simp add: Echo_publish_eq)
  }
  {
    assume "\<forall>qs. r = Obj qs \<longrightarrow> map_of qs ''topic'' = None \<or> map_of qs ''data'' = None"
    then have sub: "substitute r topic data = (topic, data)" by (rule substitute_other)
    show "Default_publish hooks d topic data =
        (failed (thrown hooks ''onAfterPublish'' [topic, data]), d,
         HookCall ''onBeforePublish'' [topic, data]
           # sendIfConnected d
               (Obj [(''type'', Str ''publish''), (''topic'', topic), (''data'', data)])
           @ called hooks ''onAfterPublish'' [topic, data])"
      using hr sub by (simp add: Default_publish_eq)
    show "Echo_publish hooks e topic data =
        (failed (thrown hooks ''onAfterPublish'' [topic, data]), fst (Echo_doPublish e topic data),
         HookCall ''onBeforePublish'' [topic, data]
           # snd (Echo_doPublish e topic data) @ called hooks ''onAfterPublish'' [topic, data])"
      using hr sub by (simp add: Echo_publish_eq)
  }
qed

theorem C4_before_publish_substitution_witness:
  "rewritingHooks ''onBeforePublish''
      = Some (alwaysReturns (Obj [(''topic'', Str ''other''), (''data'', Num 2)]))
   \<and> alwaysReturns (Obj [(''topic'', Str ''other''), (''data'', Num 2)]) [Str ''room'', Num 1]
      = Returns (Obj [(''topic'', Str ''other''), (''data'', Num 2)])
   \<and> Default_publish rewritingHooks connectedAdapter (Str ''room'') (Num 1) =
       (Inr (), connectedAdapter,
        [HookCall ''onBeforePublish'' [Str ''room'', Num 1],
         WsSend ''wss://signal''
           (Obj [(''type'', Str ''publish''), (''topic'', Str ''other''), (''data'', Num 2)])])
   \<and> Default_publish keepingHooks connectedAdapter (Str ''room'') (Num 1) =
       (Inr (), connectedAdapter,
        [HookCall ''onBeforePublish'' [Str ''room'', Num 1],
         WsSend ''wss://signal''
           (Obj [(''type'', Str ''publish''), (''topic'', Str ''room''), (''data'', Num 1)])])"
  using C4_before_publish_substitution
          [of rewritingHooks "alwaysReturns (Obj [(''topic'', Str ''other''), (''data'', Num 2)])"
              "Str ''room''" "Num 1" "Obj [(''topic'', Str ''other''), (''data'', Num 2)]"
              "[(''topic'', Str ''other''), (''data'', Num 2)]" "Str ''other''" "Num 2"
              connectedAdapter]
        C4_before_publish_substitution
          [of keepingHooks "alwaysReturns (Obj [(''topic'', Str ''other'')])"
              "Str ''room''" "Num 1" "Obj [(''topic'', Str ''other'')]"
              "[]" Undefined Undefined connectedAdapter]
  by (simp add: rewritingHooks_def keepingHooks_def alwaysReturns_def thrown_def called_def
        failed_def sendIfConnected_def connectedAdapter_def)





lemma keys_update: "fst ` set (AList.update k v al) = insert k (fst ` set al)"
  by (simp add: dom_map_of_conv_image_fst [symmetric] update_conv')

lemma keys_delete: "fst ` set (AList.delete k al) = fst ` set al - {k}"
  by (simp add: dom_map_of_conv_image_fst [symmetric] delete_conv')

lemma queueInv_alt:
  "queueInv s = (fst ` set (messageQueue s) \<subseteq> fst ` set (channels s) - readyChannels s)"
  by (auto simp: queueInv_def)

lemma Echo_subscribe_state:
  "fst (snd (Echo_subscribe hooks s ts)) =
     (if thrown hooks ''onBeforeSubscribe'' [Arr (map Str ts)] = None
         \<and> shouldConnect s \<and> truthy (echo s)
      then fst (Echo_subscribeEach s ts) else s)"
  by (simp add: Echo_subscribe_def callHook_eq Let_def split: option.splits prod.splits)

lemma Echo_unsubscribe_state:
  "fst (snd (Echo_unsubscribe hooks s ts)) =
     (if thrown hooks ''onBeforeUnsubscribe'' [Arr (map Str ts)] = None
      then fst (Echo_unsubscribeEach s ts) else s)"
  by (simp add: Echo_unsubscribe_def callHook_eq Let_def split: option.splits prod.splits)


lemma queueInv_doSubscribe: "queueInv s \<Longrightarrow> queueInv (fst (Echo_doSubscribe s t))"
  by (auto simp: queueInv_alt Echo_doSubscribe_def Let_def keys_update)

lemma queueInv_subscribeEach: "queueInv s \<Longrightarrow> queueInv (fst (Echo_subscribeEach s ts))"
proof (induction ts arbitrary: s)
  case Nil
  then show ?case by simp
next
  case (Cons t ts)
  show ?case
  proof (cases "map_of (channels s) t \<noteq> None")
    case True
    then show ?thesis using Cons.IH [OF Cons.prems] by (simp split: prod.splits)
  next
    case False
    then show ?thesis
      using Cons.IH [OF queueInv_doSubscribe [OF Cons.prems, of t]]
      by (simp split: prod.splits) (metis fst_conv)
  qed
qed

lemma queueInv_doUnsubscribe: "queueInv s \<Longrightarrow> queueInv (fst (Echo_doUnsubscribe s t))"
  by (auto simp: queueInv_alt Echo_doUnsubscribe_def keys_delete split: option.splits)

lemma queueInv_unsubscribeEach: "queueInv s \<Longrightarrow> queueInv (fst (Echo_unsubscribeEach s ts))"
proof (induction ts arbitrary: s)
  case Nil
  then show ?case by simp
next
  case (Cons t ts)
  show ?case
    using Cons.IH [OF queueInv_doUnsubscribe [OF Cons.prems, of t]]
    by (simp split: prod.splits) (metis fst_conv)
qed

lemma map_of_keys: "map_of al k = Some v \<Longrightarrow> k \<in> fst ` set al"
  by (metis domI dom_map_of_conv_image_fst)

lemma queueInv_doPublish: "queueInv s \<Longrightarrow> queueInv (fst (Echo_doPublish s topic d))"
  by (cases topic)
     (auto simp: queueInv_alt Echo_doPublish_def Let_def keys_update dest: map_of_keys
           split: option.splits if_splits)

lemma queueInv_onSubscribed: "queueInv s \<Longrightarrow> queueInv (fst (Echo_onSubscribed s t ch))"
  by (auto simp: queueInv_alt Echo_onSubscribed_def Let_def keys_delete)

lemma queueInv_connect: "queueInv s \<Longrightarrow> queueInv (fst (snd (Echo_connect hooks s u)))"
  by (simp add: Echo_connect_eq Let_def queueInv_def)

lemma queueInv_disconnect: "queueInv s \<Longrightarrow> queueInv (fst (snd (Echo_disconnect hooks s)))"
  by (simp add: Echo_disconnect_eq Let_def queueInv_def)

lemma queueInv_subscribe: "queueInv s \<Longrightarrow> queueInv (fst (snd (Echo_subscribe hooks s ts)))"
  by (simp add: Echo_subscribe_state queueInv_subscribeEach)

lemma queueInv_unsubscribe: "queueInv s \<Longrightarrow> queueInv (fst (snd (Echo_unsubscribe hooks s ts)))"
  by (simp add: Echo_unsubscribe_state queueInv_unsubscribeEach)

lemma queueInv_publish: "queueInv s \<Longrightarrow> queueInv (fst (snd (Echo_publish hooks s topic d)))"
  by (simp add: Echo_publish_eq queueInv_doPublish split: prod.splits)

lemma queueInv_step: "queueInv s \<Longrightarrow> queueInv (echoStep s op)"
  by (cases op)
     (simp_all add: queueInv_connect queueInv_disconnect queueInv_subscribe queueInv_unsubscribe
        queueInv_publish queueInv_onSubscribed Echo_destroy_state)

lemma queueInv_steps: "queueInv s \<Longrightarrow> queueInv (foldl echoStep s ops)"
  by (induction ops arbitrary: s) (simp_all add: queueInv_step)

lemma queueInv_init: "queueInv (Echo_init echoInstance)"
  by (simp add: queueInv_def Echo_init_def)









text \<open>
  Claim C7 (the factory fails fast): \<open>createSignalingAdapter\<close> returns the error when the
  configuration object has \<open>type = 'echo'\<close> and no Echo instance, that is, its \<open>echo\<close>
  property is absent or falsy; on every other input it returns an adapter.
\<close>

theorem C7_factory_fail_fast:
  "(map_of ps ''type'' = Some (Str ''echo'') \<and> \<not> truthy (getProp (Obj ps) ''echo'')
      \<longrightarrow> createSignalingAdapter heap (Obj ps) = Inl missingEcho)
   \<and> (map_of ps ''type'' = Some (Str ''echo'') \<and> map_of ps ''echo'' = None
      \<longrightarrow> createSignalingAdapter heap (Obj ps) = Inl missingEcho)
   \<and> (\<not> (\<exists>qs. config = Obj qs \<and> map_of qs ''type'' = Some (Str ''echo'')
             \<and> \<not> truthy (getProp config ''echo''))
      \<longrightarrow> (\<exists>r heap'. createSignalingAdapter heap config = Inr (r, heap')))"
proof (intro conjI impI)
  assume "map_of ps ''type'' = Some (Str ''echo'') \<and> \<not> truthy (getProp (Obj ps) ''echo'')"
  then show "createSignalingAdapter heap (Obj ps) = Inl missingEcho"
    by (simp add: createSignalingAdapter_def missingEcho_def Let_def)
next
  assume "map_of ps ''type'' = Some (Str ''echo'') \<and> map_of ps ''echo'' = None"
  then show "createSignalingAdapter heap (Obj ps) = Inl missingEcho"
    by (simp add: createSignalingAdapter_def missingEcho_def Let_def)
next
  assume a: "\<not> (\<exists>qs. config = Obj qs \<and> map_of qs ''type'' = Some (Str ''echo'')
             \<and> \<not> truthy (getProp config ''echo''))"
  show "\<exists>r heap'. createSignalingAdapter heap config = Inr (r, heap')"
  proof (cases config)
    case (Obj qs)
    then show ?thesis using a
      by (auto simp: createSignalingAdapter_def Let_def new_def split: option.splits)
  qed (simp_all add: createSignalingAdapter_def Let_def new_def)
qed

theorem C7_factory_fail_fast_witness:
  "createSignalingAdapter [] (Obj [(''type'', Str ''echo'')]) = Inl missingEcho
   \<and> createSignalingAdapter [] (Obj [(''type'', Str ''echo''), (''echo'', Null)]) = Inl missingEcho
   \<and> createSignalingAdapter [] (Obj [(''type'', Str ''echo''), (''echo'', Obj [])])
       = Inr (0, [EchoAdapter (Obj []) (Echo_init (Obj []))])
   \<and> createSignalingAdapter [] (Obj [(''type'', Str ''default'')])
       = Inr (0, [DefaultAdapter (Obj []) Default_init])"
  using C7_factory_fail_fast [of "[(''type'', Str ''echo'')]" "[]" "Obj [(''type'', Str ''default'')]"]
        C7_factory_fail_fast [of "[(''type'', Str ''echo''), (''echo'', Null)]" "[]"
                                 "Obj [(''type'', Str ''echo''), (''echo'', Obj [])]"]
  by (simp add: createSignalingAdapter_def Let_def new_def)

text \<open>
  Claim C9 (pass-through of the factory): an adapter instance is returned as it is, the
  heap unchanged; a string, and a configuration object whose \<open>type\<close> is not \<open>'echo'\<close>, give
  a new \<open>DefaultSignalingAdapter\<close> in its initial state, with the hooks of the
  configuration (none for a string); and whatever is returned is a reference to an
  object: the given instance, or a new one beside the old objects, never \<open>null\<close>.
\<close>

theorem C9_factory_pass_through:
  "createSignalingAdapter heap (AdapterRef r) = Inr (r, heap)
   \<and> createSignalingAdapter heap (Str u)
       = Inr (length heap, heap @ [DefaultAdapter (Obj []) Default_init])
   \<and> (typeof config = ''object'' \<and> \<not> instanceofSignalingAdapter config \<and> config \<noteq> Null
        \<and> getProp config ''type'' \<noteq> Str ''echo''
      \<longrightarrow> createSignalingAdapter heap config
          = Inr (length heap,
                 heap @ [DefaultAdapter (if truthy (getProp config ''hooks'')
                                         then getProp config ''hooks'' else Obj []) Default_init]))
   \<and> (createSignalingAdapter heap config = Inr (r', heap')
      \<longrightarrow> (config = AdapterRef r' \<and> heap' = heap)
        \<or> (r' = length heap \<and> length heap' = Suc (length heap) \<and> take (length heap) heap' = heap))"
proof (intro conjI impI)
  show "createSignalingAdapter heap (AdapterRef r) = Inr (r, heap)"
    by (simp add: createSignalingAdapter_def)
  show "createSignalingAdapter heap (Str u)
       = Inr (length heap, heap @ [DefaultAdapter (Obj []) Default_init])"
    by (simp add: createSignalingAdapter_def new_def)
next
  assume "typeof config = ''object'' \<and> \<not> instanceofSignalingAdapter config \<and> config \<noteq> Null
        \<and> getProp config ''type'' \<noteq> Str ''echo''"
  then show "createSignalingAdapter heap config
          = Inr (length heap,
                 heap @ [DefaultAdapter (if truthy (getProp config ''hooks'')
                                         then getProp config ''hooks'' else Obj []) Default_init])"
    by (simp add: createSignalingAdapter_def new_def Let_def)
next
  assume "createSignalingAdapter heap config = Inr (r', heap')"
  then show "(config = AdapterRef r' \<and> heap' = heap)
        \<or> (r' = length heap \<and> length heap' = Suc (length heap) \<and> take (length heap) heap' = heap)"
    by (cases config) (auto simp: createSignalingAdapter_def new_def Let_def split: if_splits)
qed

theorem C9_factory_pass_through_witness:
  "createSignalingAdapter [EchoAdapter (Obj []) (Echo_init (Obj []))] (AdapterRef 0)
     = Inr (0, [EchoAdapter (Obj []) (Echo_init (Obj []))])
   \<and> createSignalingAdapter [] (Obj [(''type'', Str ''default''), (''hooks'', Obj [(''onMessage'', Null)])])
     = Inr (0, [DefaultAdapter (Obj [(''onMessage'', Null)]) Default_init])
   \<and> createSignalingAdapter [] (Obj [(''url'', Str ''wss://signal'')])
     = Inr (0, [DefaultAdapter (Obj []) Default_init])"
  using C9_factory_pass_through
          [of "[EchoAdapter (Obj []) (Echo_init (Obj []))]" 0 "''wss://signal''" "AdapterRef 0" 0
              "[EchoAdapter (Obj []) (Echo_init (Obj []))]"]
        C9_factory_pass_through
          [of "[]" 0 "''wss://signal''"
              "Obj [(''type'', Str ''default''), (''hooks'', Obj [(''onMessage'', Null)])]" 0
              "[DefaultAdapter (Obj [(''onMessage'', Null)]) Default_init]"]
        C9_factory_pass_through
          [of "[]" 0 "''wss://signal''" "Obj [(''url'', Str ''wss://signal'')]" 0
              "[DefaultAdapter (Obj []) Default_init]"]
  by (simp add: createSignalingAdapter_def new_def Let_def)

lemma doUnsubscribe_removes_queue:
  "queueInv s \<Longrightarrow> map_of (messageQueue (fst (Echo_doUnsubscribe s t))) t = None"
proof (cases "map_of (channels s) t")
  case None
  assume inv: "queueInv s"
  have "t \<notin> fst ` set (channels s)"
    using None by (simp add: map_of_eq_None_iff)
  then have "t \<notin> fst ` set (messageQueue s)" using inv by (auto simp: queueInv_alt)
  then have q: "map_of (messageQueue s) t = None" by (simp add: map_of_eq_None_iff)
  have "Echo_doUnsubscribe s t = (s, [])" using None by (simp add: Echo_doUnsubscribe_def)
  then show ?thesis using q by simp
next
  case (Some ch)
  then show ?thesis by (simp add: Echo_doUnsubscribe_def delete_conv')
qed

lemma disconnect_removes_queue:
  "thrown hooks ''onBeforeDisconnect'' [] = None \<Longrightarrow>
   messageQueue (fst (snd (Echo_disconnect hooks s))) = []"
  by (simp add: Echo_disconnect_eq Let_def)

text \<open>
  Claim C10 (queue invariant of the \<open>LaravelEchoAdapter\<close>): after every sequence of
  \<open>connect\<close>, \<open>disconnect\<close>, \<open>destroy\<close>, \<open>subscribe\<close>, \<open>unsubscribe\<close>, \<open>publish\<close> calls and
  \<open>subscribed\<close> callbacks on a new adapter, under any hooks, every topic with an entry in
  \<open>messageQueue\<close> is a key of \<open>channels\<close> and is not in \<open>readyChannels\<close>. In such a state
  \<open>_doUnsubscribe\<close> of a topic leaves no queue for it, and a \<open>disconnect\<close> that gets past
  \<open>onBeforeDisconnect\<close> leaves no queue at all.
\<close>

theorem C10_queue_invariant:
  "queueInv (foldl echoStep (Echo_init echoInstance) ops)
   \<and> map_of (messageQueue
        (fst (Echo_doUnsubscribe (foldl echoStep (Echo_init echoInstance) ops) t))) t = None
   \<and> (thrown hooks ''onBeforeDisconnect'' [] = None \<longrightarrow>
        messageQueue (fst (snd (Echo_disconnect hooks
          (foldl echoStep (Echo_init echoInstance) ops)))) = [])"
  using queueInv_steps [OF queueInv_init, of echoInstance ops]
  by (simp add: doUnsubscribe_removes_queue disconnect_removes_queue)

theorem C10_queue_invariant_witness:
  "messageQueue (foldl echoStep (Echo_init (Obj [])) exampleOps) = [(''b'', [Num 2])]
   \<and> map fst (channels (foldl echoStep (Echo_init (Obj [])) exampleOps)) = [''a'', ''b'']
   \<and> readyChannels (foldl echoStep (Echo_init (Obj [])) exampleOps) = {''a''}
   \<and> queueInv (foldl echoStep (Echo_init (Obj [])) exampleOps)"
  using C10_queue_invariant [of "Obj []" exampleOps "''b''" noHooks]
  by (simp add: exampleOps_def Echo_init_def noHooks_def Echo_connect_def Echo_subscribe_def
        Echo_publish_def Echo_doSubscribe_def Echo_doPublish_def Echo_onSubscribed_def
        callHook_def substitute_def settled_def getChannelName_def Let_def)

end
